theory Spec2Isabelle
  imports Complex_Main "HOL-Library.Word"
begin

section \<open>SER container parser (src/ser\_parser.py)\<close>

text \<open>
  The file on disk is a list of bytes.  The four exception classes of the parser are the
  constructors of \<open>ser_error\<close>; a method that raises returns \<open>Inl\<close>.
  Header integers are Python integers (unbounded), so decoded fields are naturals.
\<close>

type_synonym byte = "8 word"

datatype ser_error = SERError | SERFormatError | SERIOError | SERIndexError

datatype endian = LittleE | BigE

datatype dtype = UInt8 | UInt16

record ndarray =
  dtype :: dtype
  shape :: "nat list"
  data :: "nat list"

record SERHeader =
  file_id :: "byte list"
  lu_id :: nat
  color_id :: nat
  little_endian :: nat
  image_width :: nat
  image_height :: nat
  pixel_depth :: nat
  frame_count :: nat
  observer :: "byte list"
  instrument :: "byte list"
  telescope :: "byte list"
  datetime_utc :: nat

record SERParser =
  file_bytes :: "byte list"
  header :: "SERHeader option"
  frame_size :: nat
  has_ts :: bool

definition HEADER_SIZE :: nat where
  "HEADER_SIZE = 178"

definition FILE_ID :: "byte list" where
  "FILE_ID = [76, 85, 67, 65, 77, 45, 82, 69, 67, 79, 82, 68, 69, 82]"

definition VALID_COLOR_IDS :: "nat set" where
  "VALID_COLOR_IDS = {0, 1, 2, 3, 4, 8, 9, 16, 17, 100, 101}"

definition VALID_PIXEL_DEPTHS :: "nat set" where
  "VALID_PIXEL_DEPTHS = {8, 16}"

text \<open>\<open>SERParser.__init__\<close> on an existing file: nothing parsed yet.\<close>

definition SERParser_init :: "byte list \<Rightarrow> SERParser" where
  "SERParser_init bs = \<lparr>file_bytes = bs, header = None, frame_size = 0, has_ts = False\<rparr>"

text \<open>Python's slice \<open>xs[a:b]\<close> for \<open>0 \<le> a \<le> b\<close>, and \<open>bytes.rstrip(b'\x00')\<close>.\<close>

definition bytes_slice :: "nat \<Rightarrow> nat \<Rightarrow> 'a list \<Rightarrow> 'a list" where
  "bytes_slice a b xs = take (b - a) (drop a xs)"

definition rstrip0 :: "byte list \<Rightarrow> byte list" where
  "rstrip0 bs = rev (dropWhile (\<lambda>b. b = 0) (rev bs))"

text \<open>\<open>struct.unpack\<close> of one unsigned integer (\<open>'<I'\<close>, \<open>'>I'\<close>, \<open>'<Q'\<close>, \<open>'>Q'\<close>):
  the first byte is the least significant one in little-endian order and the most
  significant one in big-endian order.\<close>

fun unpack_le :: "byte list \<Rightarrow> nat" where
  "unpack_le [] = 0"
| "unpack_le (b # bs) = unat b + 256 * unpack_le bs"

definition unpack_be :: "byte list \<Rightarrow> nat" where
  "unpack_be bs = unpack_le (rev bs)"

fun struct_unpack :: "endian \<Rightarrow> byte list \<Rightarrow> nat" where
  "struct_unpack LittleE bs = unpack_le bs"
| "struct_unpack BigE bs = unpack_be bs"

definition calculate_frame_size :: "SERParser \<Rightarrow> ser_error + nat" where
  "calculate_frame_size p =
     (case header p of
        None \<Rightarrow> Inl SERError
      | Some h \<Rightarrow>
          let planes = (if color_id h \<in> {100, 101} then 3 else 1);
              bytes_per_pixel = pixel_depth h div 8
          in Inr (image_width h * image_height h * bytes_per_pixel * planes))"

text \<open>
  \<open>parse_header\<close> reads the first 178 bytes, checks the magic token, reads the byte-order
  word at offset 22 as a little-endian integer, decodes the other integer fields in the
  order that word selects, validates them, and stores the header, the frame size and the
  trailer flag in the parser.  The file size is the length of the file's bytes.  The three
  text fields are kept as their bytes with trailing zero bytes stripped (the UTF-8 decoding
  is not modelled).
\<close>

definition parse_header :: "SERParser \<Rightarrow> ser_error + SERParser" where
  "parse_header p =
     (let header_bytes = take HEADER_SIZE (file_bytes p) in
      if length header_bytes < HEADER_SIZE then Inl SERFormatError
      else
        let fid = rstrip0 (bytes_slice 0 14 header_bytes) in
        if fid \<noteq> FILE_ID then Inl SERFormatError
        else
          let le = struct_unpack LittleE (bytes_slice 22 26 header_bytes);
              endian_char = (if le = 0 then LittleE else BigE);
              lu = struct_unpack endian_char (bytes_slice 14 18 header_bytes);
              cid = struct_unpack endian_char (bytes_slice 18 22 header_bytes);
              w = struct_unpack endian_char (bytes_slice 26 30 header_bytes);
              h = struct_unpack endian_char (bytes_slice 30 34 header_bytes);
              pd = struct_unpack endian_char (bytes_slice 34 38 header_bytes);
              fc = struct_unpack endian_char (bytes_slice 38 42 header_bytes);
              dt = struct_unpack endian_char (bytes_slice 162 170 header_bytes)
          in
          if cid \<notin> VALID_COLOR_IDS then Inl SERFormatError
          else if pd \<notin> VALID_PIXEL_DEPTHS then Inl SERFormatError
          else if fc = 0 then Inl SERFormatError
          else
            let hdr = \<lparr>file_id = fid, lu_id = lu, color_id = cid, little_endian = le,
                       image_width = w, image_height = h, pixel_depth = pd,
                       frame_count = fc,
                       observer = rstrip0 (bytes_slice 42 82 header_bytes),
                       instrument = rstrip0 (bytes_slice 82 122 header_bytes),
                       telescope = rstrip0 (bytes_slice 122 162 header_bytes),
                       datetime_utc = dt\<rparr>;
                p1 = p\<lparr>header := Some hdr\<rparr>
            in
            case calculate_frame_size p1 of
              Inl e \<Rightarrow> Inl e
            | Inr fs \<Rightarrow>
                let file_size = length (file_bytes p);
                    expected_size_with_timestamps = HEADER_SIZE + fc * fs + fc * 8
                in Inr (p1\<lparr>frame_size := fs,
                           has_ts := (file_size = expected_size_with_timestamps)\<rparr>))"

text \<open>Row-major reshaping is only a change of the \<open>shape\<close> field; 16-bit samples are
  decoded two bytes at a time.\<close>

fun pairs :: "'a list \<Rightarrow> 'a list list" where
  "pairs (a # b # xs) = [a, b] # pairs xs"
| "pairs _ = []"

definition get_frame :: "SERParser \<Rightarrow> int \<Rightarrow> ser_error + ndarray" where
  "get_frame p frame_index =
     (case header p of
        None \<Rightarrow> Inl SERError
      | Some h \<Rightarrow>
          if frame_index < 0 \<or> frame_index \<ge> int (frame_count h) then Inl SERIndexError
          else
            let offset = HEADER_SIZE + nat frame_index * frame_size p;
                frame_bytes = take (frame_size p) (drop offset (file_bytes p))
            in
            if length frame_bytes < frame_size p then Inl SERIOError
            else
              let endian_char = (if little_endian h = 0 then LittleE else BigE);
                  dt = (if pixel_depth h = 8 then UInt8 else UInt16);
                  frame_data = (if pixel_depth h = 8 then map unat frame_bytes
                                else map (struct_unpack endian_char) (pairs frame_bytes))
              in
              if color_id h \<in> {100, 101}
              then Inr \<lparr>dtype = dt, shape = [image_height h, image_width h, 3],
                       data = frame_data\<rparr>
              else Inr \<lparr>dtype = dt, shape = [image_height h, image_width h],
                       data = frame_data\<rparr>)"

definition has_timestamps :: "SERParser \<Rightarrow> bool" where
  "has_timestamps p = has_ts p"

definition EPOCH_DIFF :: int where
  "EPOCH_DIFF = 116444736000000000"

text \<open>
  \<open>get_timestamp\<close> returns \<open>None\<close> when the file has no trailer, before it looks at the
  index.  The value returned otherwise is the Unix time in seconds that the source hands
  to \<open>datetime.fromtimestamp\<close>; the calendar conversion, which raises for a time beyond
  the year 9999, is not modelled.
\<close>

definition get_timestamp :: "SERParser \<Rightarrow> int \<Rightarrow> ser_error + rat option" where
  "get_timestamp p frame_index =
     (case header p of
        None \<Rightarrow> Inl SERError
      | Some h \<Rightarrow>
          if \<not> has_ts p then Inr None
          else if frame_index < 0 \<or> frame_index \<ge> int (frame_count h) then Inl SERIndexError
          else
            let timestamp_offset =
                  HEADER_SIZE + frame_count h * frame_size p + nat frame_index * 8;
                timestamp_bytes = take 8 (drop timestamp_offset (file_bytes p))
            in
            if length timestamp_bytes \<noteq> 8 then Inl SERIOError
            else
              let endian_char = (if little_endian h = 0 then LittleE else BigE);
                  raw_timestamp = struct_unpack endian_char timestamp_bytes
              in Inr (Some (of_int (int raw_timestamp - EPOCH_DIFF) / 10000000)))"

text \<open>A header used in examples: the magic token, the seven 4-byte integer fields
  given as bytes, three empty 40-byte text fields, and 16 zero bytes for offsets 162 to 177
  (the capture time and the unread rest of the header).\<close>

definition mk_header ::
  "byte list \<Rightarrow> byte list \<Rightarrow> byte list \<Rightarrow> byte list \<Rightarrow> byte list \<Rightarrow> byte list
     \<Rightarrow> byte list \<Rightarrow> byte list" where
  "mk_header lu cid le w h pd fc =
     FILE_ID @ lu @ cid @ le @ w @ h @ pd @ fc @ replicate 120 0 @ replicate 16 0"

text \<open>Example files: one frame of one 8-bit mono pixel, with and without the 8-byte
  trailer (one byte short), and a big-endian file of two 16-bit 2\<times>1 frames.\<close>

definition ex_hdr :: "SERHeader" where
  "ex_hdr = \<lparr>file_id = FILE_ID, lu_id = 0, color_id = 0, little_endian = 0,
      image_width = 1, image_height = 1, pixel_depth = 8, frame_count = 1,
      observer = [], instrument = [], telescope = [], datetime_utc = 0\<rparr>"

definition ex_ts :: "byte list" where
  "ex_ts = mk_header [0,0,0,0] [0,0,0,0] [0,0,0,0] [1,0,0,0] [1,0,0,0] [8,0,0,0] [1,0,0,0]
            @ [42] @ replicate 8 0"

definition ex_nots :: "byte list" where
  "ex_nots = mk_header [0,0,0,0] [0,0,0,0] [0,0,0,0] [1,0,0,0] [1,0,0,0] [8,0,0,0] [1,0,0,0]
            @ [42] @ replicate 7 0"

definition ex_be_hdr :: "SERHeader" where
  "ex_be_hdr = \<lparr>file_id = FILE_ID, lu_id = 5, color_id = 8, little_endian = 1,
      image_width = 2, image_height = 1, pixel_depth = 16, frame_count = 2,
      observer = [], instrument = [], telescope = [], datetime_utc = 0\<rparr>"

definition ex_be :: "byte list" where
  "ex_be = mk_header [0,0,0,5] [0,0,0,8] [1,0,0,0] [0,0,0,2] [0,0,0,1] [0,0,0,16] [0,0,0,2]
            @ [1,0, 0,2, 0,3, 0,4]"

definition ex_le_hdr :: "SERHeader" where
  "ex_le_hdr = \<lparr>file_id = FILE_ID, lu_id = 5, color_id = 8, little_endian = 0,
      image_width = 2, image_height = 1, pixel_depth = 16, frame_count = 2,
      observer = [], instrument = [], telescope = [], datetime_utc = 0\<rparr>"

definition ex_le :: "byte list" where
  "ex_le = mk_header [5,0,0,0] [8,0,0,0] [0,0,0,0] [2,0,0,0] [1,0,0,0] [16,0,0,0] [2,0,0,0]
            @ [1,0, 0,2, 0,3, 0,4]"

section \<open>Color reconstruction (src/image\_processor.py)\<close>

text \<open>
  An array is its element type, its shape and its elements in row-major order.  Python
  exceptions raised by numpy are the constructors of \<open>py_error\<close>.
\<close>

datatype py_error = ValueError | IndexError | AxisError

definition COLOR_MONO :: nat where "COLOR_MONO = 0"
definition COLOR_BAYER_RGGB :: nat where "COLOR_BAYER_RGGB = 1"
definition COLOR_BAYER_GRBG :: nat where "COLOR_BAYER_GRBG = 2"
definition COLOR_BAYER_GBRG :: nat where "COLOR_BAYER_GBRG = 3"
definition COLOR_BAYER_BGGR :: nat where "COLOR_BAYER_BGGR = 4"
definition COLOR_BAYER_CYYM :: nat where "COLOR_BAYER_CYYM = 8"
definition COLOR_BAYER_YCMY :: nat where "COLOR_BAYER_YCMY = 9"
definition COLOR_BAYER_YMCY :: nat where "COLOR_BAYER_YMCY = 16"
definition COLOR_BAYER_MYYC :: nat where "COLOR_BAYER_MYYC = 17"
definition COLOR_RGB :: nat where "COLOR_RGB = 100"
definition COLOR_BGR :: nat where "COLOR_BGR = 101"

text \<open>The conversion codes stored in \<open>BAYER_PATTERNS\<close> when OpenCV is present, and the
  table itself (keys 1 to 4 only).\<close>

datatype cv_code = COLOR_BAYER_BG2RGB | COLOR_BAYER_GB2RGB | COLOR_BAYER_GR2RGB
  | COLOR_BAYER_RG2RGB

definition BAYER_PATTERNS :: "nat \<Rightarrow> cv_code option" where
  "BAYER_PATTERNS cid =
     (if cid = COLOR_BAYER_RGGB then Some COLOR_BAYER_BG2RGB
      else if cid = COLOR_BAYER_GRBG then Some COLOR_BAYER_GB2RGB
      else if cid = COLOR_BAYER_GBRG then Some COLOR_BAYER_GR2RGB
      else if cid = COLOR_BAYER_BGGR then Some COLOR_BAYER_RG2RGB
      else None)"

text \<open>
  What the reconstruction takes from outside the repository and from its configuration:
  \<^item> \<open>cvtColor\<close>: \<open>cv2.cvtColor\<close>, or \<open>None\<close> when OpenCV is not installed
    (\<open>HAS_OPENCV = False\<close>);
  \<^item> \<open>zoom2\<close>: \<open>zoom2 p i j\<close> is element \<open>(i, j)\<close> of \<open>scipy.ndimage.zoom(p, 2, order=1)\<close>,
    an array twice as large as \<open>p\<close> in each direction;
  \<^item> \<open>CYYM_PATTERN\<close>: the class attribute holding the selected orientation.
\<close>

record img_env =
  cvtColor :: "(ndarray \<Rightarrow> cv_code \<Rightarrow> py_error + ndarray) option"
  zoom2 :: "rat list list \<Rightarrow> nat \<Rightarrow> nat \<Rightarrow> rat"
  CYYM_PATTERN :: string

text \<open>\<open>float.astype(uint8)\<close> and \<open>float.astype(uint16)\<close>: truncation toward zero, then
  the low bits (exact for values inside the target range).\<close>

definition dtype_bits :: "dtype \<Rightarrow> nat" where
  "dtype_bits d = (case d of UInt8 \<Rightarrow> 8 | UInt16 \<Rightarrow> 16)"

definition astype :: "dtype \<Rightarrow> rat \<Rightarrow> nat" where
  "astype d x = nat ((if x < 0 then \<lceil>x\<rceil> else \<lfloor>x\<rfloor>) mod 2 ^ dtype_bits d)"

definition chunks :: "nat \<Rightarrow> 'a list \<Rightarrow> 'a list list" where
  "chunks n xs =
     map (\<lambda>k. take n (drop (k * n) xs)) [0..<(if n = 0 then 0 else length xs div n)]"

definition normalize_16bit :: "ndarray \<Rightarrow> ndarray" where
  "normalize_16bit a =
     a\<lparr>dtype := UInt8, data := map (\<lambda>v. astype UInt8 (of_nat v / 256)) (data a)\<rparr>"

text \<open>\<open>data[:, :, ::-1]\<close>: the blocks along the third axis in reverse order; an array
  with fewer than three axes raises \<open>IndexError\<close>.\<close>

definition bgr_to_rgb :: "ndarray \<Rightarrow> py_error + ndarray" where
  "bgr_to_rgb a =
     (if length (shape a) < 3 then Inl IndexError
      else
        let c = shape a ! 2;
            inner = prod_list (drop 3 (shape a))
        in Inr (a\<lparr>data := concat (map (\<lambda>px. concat (rev (chunks inner px)))
                                      (chunks (c * inner) (data a)))\<rparr>))"

text \<open>\<open>np.stack([data, data, data], axis=2)\<close>: a new third axis of length 3; on a 2D
  array every sample is written three times.\<close>

definition mono_to_rgb :: "ndarray \<Rightarrow> py_error + ndarray" where
  "mono_to_rgb a =
     (if length (shape a) < 2 then Inl AxisError
      else
        let inner = prod_list (drop 2 (shape a))
        in Inr (a\<lparr>shape := take 2 (shape a) @ [3] @ drop 2 (shape a),
                   data := concat (map (\<lambda>c. c @ c @ c) (chunks inner (data a)))\<rparr>))"

text \<open>Strided slices \<open>xs[0::2]\<close> and \<open>xs[1::2]\<close>, and \<open>data[r::2, c::2]\<close> on the rows of
  a 2D array.\<close>

fun evens :: "'a list \<Rightarrow> 'a list" where
  "evens [] = []"
| "evens [x] = [x]"
| "evens (x # y # xs) = x # evens xs"

fun odds :: "'a list \<Rightarrow> 'a list" where
  "odds [] = []"
| "odds [x] = []"
| "odds (x # y # xs) = y # odds xs"

definition strided :: "nat \<Rightarrow> 'a list \<Rightarrow> 'a list" where
  "strided r xs = (if r = 0 then evens xs else odds xs)"

definition sl2 :: "nat \<Rightarrow> nat \<Rightarrow> 'a list list \<Rightarrow> 'a list list" where
  "sl2 r c rows = map (strided c) (strided r rows)"

definition rows2d :: "ndarray \<Rightarrow> nat list list" where
  "rows2d a = chunks (shape a ! 1) (take (shape a ! 0 * shape a ! 1) (data a))"

definition ew1 :: "('a \<Rightarrow> 'b) \<Rightarrow> 'a list list \<Rightarrow> 'b list list" where
  "ew1 f a = map (map f) a"

text \<open>
  Elementwise operations on two planes follow numpy's broadcasting: along an axis where
  the two lengths differ and one of them is 1, the single element is used throughout.
  (Other length mismatches raise in numpy; the callers test for them first.)
\<close>

definition bc1 :: "('a \<Rightarrow> 'b \<Rightarrow> 'c) \<Rightarrow> 'a list \<Rightarrow> 'b list \<Rightarrow> 'c list" where
  "bc1 f xs ys =
     (if length xs = length ys then map2 f xs ys
      else if length xs = 1 then map (f (hd xs)) ys
      else if length ys = 1 then map (\<lambda>x. f x (hd ys)) xs
      else map2 f xs ys)"

definition ew2 :: "('a \<Rightarrow> 'b \<Rightarrow> 'c) \<Rightarrow> 'a list list \<Rightarrow> 'b list list \<Rightarrow> 'c list list" where
  "ew2 f a b = bc1 (bc1 f) a b"

definition clip :: "rat \<Rightarrow> rat \<Rightarrow> rat \<Rightarrow> rat" where
  "clip lo hi x = min (max x lo) hi"

text \<open>
  The first half of \<open>debayer_cyym\<close>: the four slices chosen by the orientation name (an
  unknown name falls back to the CYYM layout), the average of the two yellow planes, the
  solution of \<open>Cy = G + B\<close>, \<open>Y = R + G\<close>, \<open>Mg = R + B\<close>, and the clipping to \<open>[0, 255]\<close>.
  The planes are float32 arrays in the source and rational here: on integer samples every
  intermediate value is a multiple of 1/4 far below \<open>2^24\<close>, which float32 represents
  exactly.  The result is the triple of half-resolution planes \<open>(r, g, b)\<close>.
\<close>

definition cyym_slices ::
  "string \<Rightarrow> nat list list
     \<Rightarrow> rat list list \<times> rat list list \<times> rat list list \<times> rat list list" where
  "cyym_slices pattern rows =
     (let f = (\<lambda>r c. ew1 rat_of_nat (sl2 r c rows)) in
      if pattern = ''CYYM'' then (f 0 0, f 0 1, f 1 0, f 1 1)
      else if pattern = ''YCMY'' then (f 0 1, f 0 0, f 1 1, f 1 0)
      else if pattern = ''YMCY'' then (f 1 0, f 0 0, f 1 1, f 0 1)
      else if pattern = ''MYYC'' then (f 1 1, f 0 1, f 1 0, f 0 0)
      else (f 0 0, f 0 1, f 1 0, f 1 1))"

definition cyym_planes ::
  "string \<Rightarrow> nat list list \<Rightarrow> rat list list \<times> rat list list \<times> rat list list" where
  "cyym_planes pattern rows =
     (case cyym_slices pattern rows of (cy, y1, y2, mg) \<Rightarrow>
        let y_avg = ew1 (\<lambda>x. x / 2) (ew2 (+) y1 y2);
            r = ew1 (\<lambda>x. x / 2) (ew2 (-) (ew2 (+) y_avg mg) cy);
            g = ew1 (\<lambda>x. x / 2) (ew2 (-) (ew2 (+) y_avg cy) mg);
            b = ew1 (\<lambda>x. x / 2) (ew2 (-) (ew2 (+) cy mg) y_avg)
        in (ew1 (clip 0 255) r, ew1 (clip 0 255) g, ew1 (clip 0 255) b))"

text \<open>
  \<open>debayer_cyym\<close>: the planes above, upsampled by \<open>zoom2\<close>, cropped to the frame size,
  written to the three channels and cast to 8 bits.  A frame that is not 2D fails at
  \<open>height, width = data.shape\<close>.  Along an axis of even length the four slices have the
  same length.  Along an axis of odd length \<open>n\<close> they have lengths \<open>(n + 1) / 2\<close> and
  \<open>(n - 1) / 2\<close>: for \<open>n = 3\<close> numpy broadcasts the single row or column (2 against 1);
  for \<open>n \<ge> 5\<close> the elementwise operations raise \<open>ValueError\<close>; for \<open>n = 1\<close> the planes
  are empty along that axis and cannot be written into the image, which is taken to raise
  \<open>ValueError\<close> as well.
\<close>

definition cyym_axis_ok :: "nat \<Rightarrow> bool" where
  "cyym_axis_ok n = (even n \<or> n = 3)"

definition debayer_cyym :: "img_env \<Rightarrow> ndarray \<Rightarrow> string \<Rightarrow> py_error + ndarray" where
  "debayer_cyym env a pattern =
     (if length (shape a) \<noteq> 2 then Inl ValueError
      else
        let height = shape a ! 0; width = shape a ! 1 in
        if \<not> (cyym_axis_ok height \<and> cyym_axis_ok width) then Inl ValueError
        else
          case cyym_planes pattern (rows2d a) of (r, g, b) \<Rightarrow>
            Inr \<lparr>dtype = UInt8, shape = [height, width, 3],
                 data = concat (map (\<lambda>i. concat (map (\<lambda>j.
                          [astype UInt8 (zoom2 env r i j),
                           astype UInt8 (zoom2 env g i j),
                           astype UInt8 (zoom2 env b i j)]) [0..<width])) [0..<height])\<rparr>)"

text \<open>
  \<open>debayer_simple\<close>.  The image under construction is a function from (row, column,
  channel) to a sample, starting from zeros; each slice assignment of the source is one
  update, in the source's order.  Sums are taken in the frame's integer type (they wrap)
  before the floor division by 2; \<open>np.roll\<close> by \<open>-1\<close> reads the next block (cyclically) and
  by \<open>1\<close> the previous one.  The direct assignments (all that GRBG, GBRG and BGGR do) copy
  a slice onto the same slice and work for every shape; the interpolated assignments of
  RGGB pair slices that have different shapes as soon as the height or the width is odd,
  and raise \<open>ValueError\<close> there.
\<close>

type_synonym pixfun = "nat \<Rightarrow> nat \<Rightarrow> nat \<Rightarrow> nat"

definition assign :: "(nat \<Rightarrow> nat \<Rightarrow> bool) \<Rightarrow> nat \<Rightarrow> (nat \<Rightarrow> nat \<Rightarrow> nat) \<Rightarrow> pixfun \<Rightarrow> pixfun" where
  "assign sel ch v rgb = (\<lambda>i j c. if sel i j \<and> c = ch then v i j else rgb i j c)"

definition debayer_simple :: "ndarray \<Rightarrow> string \<Rightarrow> py_error + ndarray" where
  "debayer_simple a pattern =
     (if length (shape a) \<noteq> 2 then Inl ValueError
      else
        let height = shape a ! 0; width = shape a ! 1 in
        if pattern = ''RGGB'' \<and> (odd height \<or> odd width) then Inl ValueError
        else
          let d = (\<lambda>i j. data a ! (i * width + j));
              m = 2 ^ dtype_bits (dtype a);
              h2 = height div 2; w2 = width div 2;
              ee = (\<lambda>i j. even i \<and> even j); eo = (\<lambda>i j. even i \<and> odd j);
              oe = (\<lambda>i j. odd i \<and> even j); oo = (\<lambda>i j. odd i \<and> odd j);
              zeros = (\<lambda>i j c. 0);
              rgb =
               (if pattern = ''RGGB'' then
                  let s1 = assign ee 0 d zeros;
                      s2 = assign eo 1 d s1;
                      s3 = assign oe 1 d s2;
                      s4 = assign oo 2 d s3;
                      s5 = assign eo 0 (\<lambda>i j. ((s4 i (j - 1) 0
                              + s4 i (2 * (((j - 1) div 2 + 1) mod w2)) 0) mod m) div 2) s4;
                      s6 = assign (\<lambda>i j. odd i) 0 (\<lambda>i j. ((s5 (i - 1) j 0
                              + s5 (2 * (((i - 1) div 2 + 1) mod h2)) j 0) mod m) div 2) s5;
                      s7 = assign oe 2 (\<lambda>i j. ((s6 i (j + 1) 2
                              + s6 i (2 * ((j div 2 + w2 - 1) mod w2) + 1) 2) mod m) div 2) s6;
                      s8 = assign (\<lambda>i j. even i) 2 (\<lambda>i j. ((s7 (i + 1) j 2
                              + s7 (2 * ((i div 2 + h2 - 1) mod h2) + 1) j 2) mod m) div 2) s7
                  in s8
                else if pattern = ''GRBG'' then
                  assign oe 2 d (assign oo 1 d (assign ee 1 d (assign eo 0 d zeros)))
                else if pattern = ''GBRG'' then
                  assign oo 1 d (assign oe 0 d (assign eo 2 d (assign ee 1 d zeros)))
                else if pattern = ''BGGR'' then
                  assign oo 0 d (assign oe 1 d (assign eo 1 d (assign ee 2 d zeros)))
                else zeros)
          in Inr \<lparr>dtype = dtype a, shape = [height, width, 3],
                  data = concat (map (\<lambda>i. concat (map (\<lambda>j.
                           [rgb i j 0, rgb i j 1, rgb i j 2]) [0..<width])) [0..<height])\<rparr>)"

definition pattern_names :: "nat \<Rightarrow> string option" where
  "pattern_names cid =
     (if cid = COLOR_BAYER_RGGB then Some ''RGGB''
      else if cid = COLOR_BAYER_GRBG then Some ''GRBG''
      else if cid = COLOR_BAYER_GBRG then Some ''GBRG''
      else if cid = COLOR_BAYER_BGGR then Some ''BGGR''
      else None)"

text \<open>\<open>debayer\<close>: only the identifier 8 goes to the CYYM solver; OpenCV serves the
  identifiers of \<open>BAYER_PATTERNS\<close> when it is installed; the simple debayering serves the
  identifiers of \<open>pattern_names\<close>; every other identifier is treated as mono.\<close>

definition debayer :: "img_env \<Rightarrow> ndarray \<Rightarrow> nat \<Rightarrow> py_error + ndarray" where
  "debayer env a cid =
     (if cid = COLOR_BAYER_CYYM then debayer_cyym env a (CYYM_PATTERN env)
      else
        case (cvtColor env, BAYER_PATTERNS cid) of
          (Some cvt, Some pattern) \<Rightarrow> cvt a pattern
        | _ \<Rightarrow>
            (case pattern_names cid of
               Some name \<Rightarrow> debayer_simple a name
             | None \<Rightarrow> mono_to_rgb a))"

definition process_frame :: "img_env \<Rightarrow> ndarray \<Rightarrow> nat \<Rightarrow> nat \<Rightarrow> py_error + ndarray" where
  "process_frame env raw_data cid pixel_depth_arg =
     (let a = (if pixel_depth_arg = 16 then normalize_16bit raw_data else raw_data) in
      if cid = COLOR_MONO then mono_to_rgb a
      else if cid \<in> {COLOR_BAYER_RGGB, COLOR_BAYER_GRBG, COLOR_BAYER_GBRG, COLOR_BAYER_BGGR,
                      COLOR_BAYER_CYYM, COLOR_BAYER_YCMY, COLOR_BAYER_YMCY, COLOR_BAYER_MYYC}
        then debayer env a cid
      else if cid = COLOR_RGB then Inr a
      else if cid = COLOR_BGR then bgr_to_rgb a
      else if length (shape a) = 2 then mono_to_rgb a
      else Inr a)"

text \<open>
  For examples: bilinear upsampling by 2 in exact arithmetic, with output index \<open>k\<close> of an
  axis of input length \<open>n\<close> read at input coordinate \<open>k * (n - 1) / (2 * n - 1)\<close>, and a 2\<times>2
  mosaic block laid out as the docstring of \<open>debayer_cyym\<close> gives each orientation.
\<close>

definition lerp1 :: "rat list \<Rightarrow> rat \<Rightarrow> rat" where
  "lerp1 xs c =
     (let k = nat \<lfloor>c\<rfloor>; t = c - of_nat k
      in if k + 1 < length xs then (1 - t) * xs ! k + t * xs ! (k + 1) else xs ! k)"

definition zoom_coord :: "nat \<Rightarrow> nat \<Rightarrow> rat" where
  "zoom_coord n k = (if n \<le> 1 then 0 else of_nat (k * (n - 1)) / of_nat (2 * n - 1))"

definition zoom_linear :: "rat list list \<Rightarrow> nat \<Rightarrow> nat \<Rightarrow> rat" where
  "zoom_linear p i j =
     lerp1 (map (\<lambda>row. lerp1 row (zoom_coord (length row) j)) p) (zoom_coord (length p) i)"


definition ex_env :: "string \<Rightarrow> img_env" where
  "ex_env pattern = \<lparr>cvtColor = None, zoom2 = zoom_linear, CYYM_PATTERN = pattern\<rparr>"

definition ex_frame :: ndarray where
  "ex_frame = \<lparr>dtype = UInt8, shape = [2, 2], data = [50, 70, 70, 40]\<rparr>"

section \<open>Frame alignment (src/frame\_aligner.py and src/lucky\_imaging.py)\<close>

text \<open>
  The OpenCV functions the code calls are the fields of a record \<open>cv2\<close>; a model of the
  code is a function of that record.  Floating-point numbers are rationals.
  \<^item> \<open>cvtColor_RGB2GRAY\<close>: \<open>cv2.cvtColor(x, cv2.COLOR_RGB2GRAY)\<close>, or \<open>None\<close> when it
    raises \<open>cv2.error\<close>;
  \<^item> \<open>ORB_detectAndCompute n x\<close>: the keypoint positions and the descriptors (or \<open>None\<close>)
    found by \<open>cv2.ORB_create(nfeatures=n, scaleFactor=1.2, nlevels=8)\<close> on \<open>x\<close>;
  \<^item> \<open>knnMatch\<close>: \<open>BFMatcher(NORM_HAMMING).knnMatch(des1, des2, k=2)\<close>, one list of at most
    two matches per query descriptor;
  \<^item> \<open>estimateAffinePartial2D from to threshold iters\<close>: the RANSAC estimate with
    confidence 0.99, or \<open>None\<close>;
  \<^item> \<open>warpAffine x M (w, h) inv\<close>: the bilinear warp with constant zero border,
    \<open>inv\<close> telling whether \<open>WARP_INVERSE_MAP\<close> is set, or \<open>None\<close> when it raises;
  \<^item> \<open>findTransformECC ref x iters eps\<close>: the Euclidean ECC estimate started from the
    identity, or \<open>None\<close> when it raises \<open>cv2.error\<close>;
  \<^item> \<open>Laplacian_var\<close>: the variance of \<open>cv2.Laplacian(x, CV_64F)\<close>, or \<open>None\<close> when
    \<open>cv2.Laplacian\<close> raises \<open>cv2.error\<close> (as it does on an empty image).
  The three aligners run inside \<open>try ... except Exception: return None\<close>, so there a call
  that raises gives the result \<open>None\<close> of the aligner.  For the ORB detector, the matcher
  and the estimator, which are called only there, a raise has the same outcome as no
  descriptors, no matches and no estimate, and is counted with them.  The two quality
  scores call \<open>cvtColor\<close> and \<open>Laplacian\<close> outside any \<open>try\<close>: there a raise leaves the
  function.
\<close>

datatype affine = Affine rat rat rat rat rat rat

fun shift_x :: "affine \<Rightarrow> rat" where
  "shift_x (Affine m00 m01 m02 m10 m11 m12) = m02"

fun shift_y :: "affine \<Rightarrow> rat" where
  "shift_y (Affine m00 m01 m02 m10 m11 m12) = m12"

record dmatch =
  queryIdx :: nat
  trainIdx :: nat
  distance :: rat

record cv2 =
  cvtColor_RGB2GRAY :: "ndarray \<Rightarrow> ndarray option"
  ORB_detectAndCompute :: "nat \<Rightarrow> ndarray \<Rightarrow> (rat \<times> rat) list \<times> nat list list option"
  knnMatch :: "nat list list \<Rightarrow> nat list list \<Rightarrow> dmatch list list"
  estimateAffinePartial2D ::
    "(rat \<times> rat) list \<Rightarrow> (rat \<times> rat) list \<Rightarrow> rat \<Rightarrow> nat \<Rightarrow> affine option"
  warpAffine :: "ndarray \<Rightarrow> affine \<Rightarrow> nat \<times> nat \<Rightarrow> bool \<Rightarrow> ndarray option"
  findTransformECC :: "ndarray \<Rightarrow> ndarray \<Rightarrow> nat \<Rightarrow> rat \<Rightarrow> affine option"
  Laplacian_var :: "ndarray \<Rightarrow> rat option"

text \<open>An image is converted to gray when the reference has three axes.\<close>

definition to_gray :: "cv2 \<Rightarrow> ndarray \<Rightarrow> ndarray \<Rightarrow> ndarray option" where
  "to_gray cv reference x =
     (if length (shape reference) = 3 then cvtColor_RGB2GRAY cv x else Some x)"

text \<open>Lowe's ratio test: a pair \<open>(m, n)\<close> keeps \<open>m\<close> when
  \<open>m.distance < ratio * n.distance\<close>; entries that are not pairs are skipped.\<close>

definition ratio_test :: "rat \<Rightarrow> dmatch list list \<Rightarrow> dmatch list" where
  "ratio_test ratio matches =
     concat (map (\<lambda>match_pair.
        case match_pair of
          [m, n] \<Rightarrow> if distance m < ratio * distance n then [m] else []
        | _ \<Rightarrow> []) matches)"

text \<open>
  The part that \<open>FrameAligner.align_frame_orb\<close> and \<open>LuckyImaging.align_frame_features\<close>
  have in common, with the constants in which they differ as arguments (number of
  features, ratio, reprojection threshold, iteration cap): from the two images to the
  estimated transform, or \<open>None\<close> at each of the source's \<open>return None\<close>.  A match that
  indexes outside the keypoint lists raises in the source and is caught by its
  \<open>except Exception\<close>.
\<close>

definition feature_transform ::
  "cv2 \<Rightarrow> nat \<Rightarrow> rat \<Rightarrow> rat \<Rightarrow> nat \<Rightarrow> ndarray \<Rightarrow> ndarray \<Rightarrow> affine option" where
  "feature_transform cv nfeatures ratio threshold iters reference frame =
     (case to_gray cv reference reference of
        None \<Rightarrow> None
      | Some ref_gray \<Rightarrow>
     (case to_gray cv reference frame of
        None \<Rightarrow> None
      | Some frame_gray \<Rightarrow>
     (case ORB_detectAndCompute cv nfeatures ref_gray of (kp1, des1) \<Rightarrow>
     (case ORB_detectAndCompute cv nfeatures frame_gray of (kp2, des2) \<Rightarrow>
     (case des1 of
        None \<Rightarrow> None
      | Some d1 \<Rightarrow>
         (case des2 of
            None \<Rightarrow> None
          | Some d2 \<Rightarrow>
              if length kp1 < 10 \<or> length kp2 < 10 then None
              else
                let good_matches = ratio_test ratio (knnMatch cv d1 d2) in
                if length good_matches < 10 then None
                else if list_ex (\<lambda>m. length kp1 \<le> queryIdx m \<or> length kp2 \<le> trainIdx m)
                          good_matches then None
                else
                  let src_pts = map (\<lambda>m. kp1 ! queryIdx m) good_matches;
                      dst_pts = map (\<lambda>m. kp2 ! trainIdx m) good_matches
                  in estimateAffinePartial2D cv dst_pts src_pts threshold iters))))))"

text \<open>\<open>h, w = reference.shape[:2]\<close> raises on an array with fewer than two axes, which the
  aligners turn into \<open>None\<close>.\<close>

definition warp_to :: "cv2 \<Rightarrow> ndarray \<Rightarrow> ndarray \<Rightarrow> affine \<Rightarrow> bool \<Rightarrow> ndarray option" where
  "warp_to cv reference frame M inverse_map =
     (if length (shape reference) < 2 then None
      else warpAffine cv frame M (shape reference ! 1, shape reference ! 0) inverse_map)"

definition align_frame_ecc ::
  "cv2 \<Rightarrow> ndarray \<Rightarrow> ndarray \<Rightarrow> nat \<Rightarrow> rat \<Rightarrow> ndarray option" where
  "align_frame_ecc cv reference frame max_iterations termination_eps =
     (case to_gray cv reference reference of
        None \<Rightarrow> None
      | Some ref_gray \<Rightarrow>
     (case to_gray cv reference frame of
        None \<Rightarrow> None
      | Some frame_gray \<Rightarrow>
     (case findTransformECC cv ref_gray frame_gray max_iterations termination_eps of
        None \<Rightarrow> None
      | Some warp_matrix \<Rightarrow> warp_to cv reference frame warp_matrix True)))"

definition align_frame_orb :: "cv2 \<Rightarrow> ndarray \<Rightarrow> ndarray \<Rightarrow> int \<Rightarrow> ndarray option" where
  "align_frame_orb cv reference frame max_shift =
     (case feature_transform cv 10000 (3 / 4) 5 5000 reference frame of
        None \<Rightarrow> None
      | Some M \<Rightarrow>
          if \<bar>shift_x M\<bar> > of_int max_shift \<or> \<bar>shift_y M\<bar> > of_int max_shift then None
          else warp_to cv reference frame M False)"

definition align_frame_features :: "cv2 \<Rightarrow> ndarray \<Rightarrow> ndarray \<Rightarrow> ndarray option" where
  "align_frame_features cv reference frame =
     (case feature_transform cv 5000 (7 / 10) 3 2000 reference frame of
        None \<Rightarrow> None
      | Some M \<Rightarrow> warp_to cv reference frame M False)"

text \<open>The two quality scores; \<open>None\<close> is \<open>cv2.error\<close> leaving the function.\<close>

definition calculate_quality_score :: "cv2 \<Rightarrow> ndarray \<Rightarrow> rat option" where
  "calculate_quality_score cv img =
     (if length (shape img) = 3
      then (case cvtColor_RGB2GRAY cv img of
              None \<Rightarrow> None
            | Some gray \<Rightarrow> Laplacian_var cv gray)
      else Laplacian_var cv img)"

definition calculate_sharpness :: "cv2 \<Rightarrow> ndarray \<Rightarrow> rat option" where
  "calculate_sharpness cv frame =
     (if length (shape frame) = 3
      then (case cvtColor_RGB2GRAY cv frame of
              None \<Rightarrow> None
            | Some gray \<Rightarrow> Laplacian_var cv gray)
      else Laplacian_var cv frame)"

text \<open>
  For examples, a stand-in for OpenCV that finds ten keypoints in every image, matches
  them one to one with first distance 1 and second distance \<open>d2\<close>, estimates a pure
  translation by \<open>(tx, ty)\<close>, whose warp returns the frame as it is, and whose Laplacian
  raises on an empty image and has variance 0 otherwise; \<open>ecc\<close> tells whether the ECC
  step succeeds (with the identity) and \<open>feat\<close> whether descriptors are found.
\<close>

definition ex_cv2 :: "bool \<Rightarrow> bool \<Rightarrow> rat \<Rightarrow> rat \<Rightarrow> rat \<Rightarrow> cv2" where
  "ex_cv2 ecc feat d2 tx ty =
     \<lparr>cvtColor_RGB2GRAY = (\<lambda>x. Some x),
      ORB_detectAndCompute = (\<lambda>n x. (map (\<lambda>k. (of_nat k, of_nat k)) [0..<10],
                                     if feat then Some [] else None)),
      knnMatch = (\<lambda>des1 des2. map (\<lambda>k. [\<lparr>queryIdx = k, trainIdx = k, distance = 1\<rparr>,
                                          \<lparr>queryIdx = k, trainIdx = k, distance = d2\<rparr>])
                                   [0..<10]),
      estimateAffinePartial2D = (\<lambda>a b t n. Some (Affine 1 0 tx 0 1 ty)),
      warpAffine = (\<lambda>x M sz inv. Some x),
      findTransformECC = (\<lambda>a b n e. if ecc then Some (Affine 1 0 0 0 1 0) else None),
      Laplacian_var = (\<lambda>x. if data x = [] then None else Some 0)\<rparr>"

definition ex_cv :: "bool \<Rightarrow> bool \<Rightarrow> rat \<Rightarrow> rat \<Rightarrow> cv2" where
  "ex_cv ecc feat tx ty = ex_cv2 ecc feat 10 tx ty"

definition ex_img :: ndarray where
  "ex_img = \<lparr>dtype = UInt8, shape = [1, 1], data = [7]\<rparr>"

section \<open>Lucky imaging and stacking (src/lucky\_imaging.py, src/stacker.py)\<close>

text \<open>
  A \<open>VideoFile\<close> as the stacker sees it: its \<open>file_type\<close>, the frame count of its header
  and the \<open>get_frame\<close> of its parser.  \<open>VideoFile_ser\<close> is the constructor for a SER file.
\<close>

datatype source_error = SERFailure ser_error | AVIValueError | AVIException

record video_file =
  file_type :: string
  vf_frame_count :: nat
  vf_get_frame :: "int \<Rightarrow> source_error + ndarray"

definition VideoFile_ser :: "byte list \<Rightarrow> ser_error + video_file" where
  "VideoFile_ser bs =
     (case parse_header (SERParser_init bs) of
        Inl e \<Rightarrow> Inl e
      | Inr p \<Rightarrow>
         (case header p of
            None \<Rightarrow> Inl SERError
          | Some h \<Rightarrow>
              Inr \<lparr>file_type = ''SER'', vf_frame_count = frame_count h,
                   vf_get_frame = (\<lambda>i. case get_frame p i of
                                           Inl e \<Rightarrow> Inl (SERFailure e)
                                         | Inr a \<Rightarrow> Inr a)\<rparr>))"

text \<open>
  The exceptions that can leave a stacking operation are the values of one type, as
  Python's exceptions are: a failure of the parser, \<open>cv2.error\<close>, \<open>IndexError\<close>,
  \<open>ValueError\<close>, the \<open>Exception("No frames selected")\<close> of lucky imaging, and any other
  \<open>Exception(message)\<close>.

  The progress callback has a state of its own (the progress dialog); a call either
  raises some exception or returns a value and a new state.  \<open>stack_frames\<close> never looks at
  the returned value and never catches what the callback raises: an exception of the
  callback leaves the operation as it is.  An operation ends with an exception (\<open>Inl\<close>)
  or with an image and the callback's state.
\<close>

datatype stack_error =
  SourceError source_error | CvError | PyIndexError | PyValueError
  | NoFramesSelected | PyException string

type_synonym ('s, 'r) callback = "nat \<Rightarrow> nat \<Rightarrow> 's \<Rightarrow> stack_error + ('r \<times> 's)"

definition call ::
  "('s, 'r) callback option \<Rightarrow> nat \<Rightarrow> nat \<Rightarrow> 's \<Rightarrow> stack_error + 's" where
  "call progress_callback current total_n s =
     (case progress_callback of
        None \<Rightarrow> Inr s
      | Some f \<Rightarrow> (case f current total_n s of
                     Inl e \<Rightarrow> Inl e
                   | Inr (r, s') \<Rightarrow> Inr s'))"

text \<open>The calls \<open>(current, total_n)\<close> of a list, one after the other, up to the first one
  that raises.\<close>

fun run_callbacks ::
  "('s, 'r) callback option \<Rightarrow> (nat \<times> nat) list \<Rightarrow> 's \<Rightarrow> stack_error + 's" where
  "run_callbacks cb [] s = Inr s"
| "run_callbacks cb ((current, total_n) # cs) s =
     (case call cb current total_n s of
        Inl e \<Rightarrow> Inl e
      | Inr s' \<Rightarrow> run_callbacks cb cs s')"

subsection \<open>Numeric helpers\<close>

text \<open>
  Float arrays are lists of rationals: the arithmetic is exact where the source rounds to
  float64 or float32, so a value that the source computes just below an integer and
  truncates can come out one unit lower there than here; on integers and on constant
  arrays the two agree.
  \<open>np.percentile\<close> with its default linear interpolation raises \<open>IndexError\<close> on an empty
  array.  \<open>np.median\<close> is taken along the frame axis, where there is always at least one
  frame.
\<close>

definition percentile :: "rat list \<Rightarrow> rat \<Rightarrow> stack_error + rat" where
  "percentile xs q =
     (let srt = sort xs; n = length srt in
      if n = 0 then Inl PyIndexError
      else
        let pos = q / 100 * of_nat (n - 1);
            lo = nat \<lfloor>pos\<rfloor>;
            hi = min (lo + 1) (n - 1);
            gamma = pos - of_nat lo
        in Inr (srt ! lo + (srt ! hi - srt ! lo) * gamma))"

definition median_list :: "rat list \<Rightarrow> rat" where
  "median_list xs =
     (let srt = sort xs; n = length srt in
      if n = 0 then 0
      else if odd n then srt ! (n div 2)
      else (srt ! (n div 2 - 1) + srt ! (n div 2)) / 2)"

definition as_float :: "ndarray \<Rightarrow> rat list" where
  "as_float a = map rat_of_nat (data a)"

text \<open>\<open>_auto_stretch(data, dtype)\<close>; the target type is an integer type, so \<open>max_val\<close> is
  its largest value.\<close>

definition auto_stretch_impl :: "rat list \<Rightarrow> dtype \<Rightarrow> stack_error + nat list" where
  "auto_stretch_impl xs dt =
     (case percentile xs (1 / 10) of
        Inl e \<Rightarrow> Inl e
      | Inr low_percentile \<Rightarrow>
     (case percentile xs (999 / 10) of
        Inl e \<Rightarrow> Inl e
      | Inr high_percentile \<Rightarrow>
          if high_percentile - low_percentile < 1 / 10 ^ 10 then Inr (map (astype dt) xs)
          else
            let stretched =
                  map (\<lambda>x. (x - low_percentile) / (high_percentile - low_percentile)) xs;
                clipped = map (clip 0 1) stretched;
                max_val = 2 ^ dtype_bits dt - 1
            in Inr (map (\<lambda>x. astype dt (x * max_val)) clipped)))"

subsection \<open>Lucky imaging\<close>

text \<open>The scoring loop of \<open>select_best_frames\<close>: read, score, report progress.\<close>

fun score_loop ::
  "cv2 \<Rightarrow> video_file \<Rightarrow> ('s, 'r) callback option \<Rightarrow> nat list \<Rightarrow> (nat \<times> rat) list \<Rightarrow> 's
     \<Rightarrow> stack_error + ((nat \<times> rat) list \<times> 's)" where
  "score_loop cv vf cb [] frame_scores s = Inr (frame_scores, s)"
| "score_loop cv vf cb (i # is) frame_scores s =
     (case vf_get_frame vf (int i) of
        Inl x \<Rightarrow> Inl (SourceError x)
      | Inr frame \<Rightarrow>
         (case calculate_sharpness cv frame of
            None \<Rightarrow> Inl CvError
          | Some score \<Rightarrow>
             (case call cb (i + 1) (vf_frame_count vf) s of
                Inl e \<Rightarrow> Inl e
              | Inr s' \<Rightarrow> score_loop cv vf cb is (frame_scores @ [(i, score)]) s')))"

fun load_loop ::
  "video_file \<Rightarrow> (nat \<times> rat) list \<Rightarrow> stack_error + (nat \<times> rat \<times> ndarray) list" where
  "load_loop vf [] = Inr []"
| "load_loop vf ((idx, score) # rest) =
     (case vf_get_frame vf (int idx) of
        Inl x \<Rightarrow> Inl (SourceError x)
      | Inr frame \<Rightarrow>
         (case load_loop vf rest of
            Inl e \<Rightarrow> Inl e
          | Inr result \<Rightarrow> Inr ((idx, score, frame) # result)))"

text \<open>
  \<open>select_best_frames\<close>.  Python's \<open>sort\<close> is stable, also with \<open>reverse=True\<close>, and so is
  \<open>sort_key\<close>; sorting by the negated score is the descending sort.  The log line that
  reads \<open>best_frames[-1]\<close> raises \<open>IndexError\<close> on an empty selection.
\<close>

definition select_best_frames ::
  "cv2 \<Rightarrow> video_file \<Rightarrow> rat \<Rightarrow> ('s, 'r) callback option \<Rightarrow> 's
     \<Rightarrow> stack_error + ((nat \<times> rat \<times> ndarray) list \<times> 's)" where
  "select_best_frames cv vf percentage cb s =
     (let n = vf_frame_count vf;
          keep_count = max 1 (nat \<lfloor>of_nat n * percentage / 100\<rfloor>)
      in
      case score_loop cv vf cb [0..<n] [] s of
        Inl e \<Rightarrow> Inl e
      | Inr (frame_scores, s') \<Rightarrow>
          let by_score = sort_key (\<lambda>x. - snd x) frame_scores;
              best_frames = sort_key fst (take keep_count by_score)
          in
          if best_frames = [] then Inl PyIndexError
          else (case load_loop vf best_frames of
                  Inl e \<Rightarrow> Inl e
                | Inr result \<Rightarrow> Inr (result, s')))"

text \<open>The alignment loop of \<open>align_and_stack_lucky\<close>, over \<open>enumerate(best_frames[1:], 1)\<close>.\<close>

fun lucky_align_loop ::
  "cv2 \<Rightarrow> ndarray \<Rightarrow> nat \<Rightarrow> ('s, 'r) callback option \<Rightarrow> nat
     \<Rightarrow> (nat \<times> rat \<times> ndarray) list \<Rightarrow> ndarray list \<Rightarrow> 's
     \<Rightarrow> stack_error + (ndarray list \<times> 's)" where
  "lucky_align_loop cv reference_frame total_n cb i [] aligned_frames s = Inr (aligned_frames, s)"
| "lucky_align_loop cv reference_frame total_n cb i ((idx, score, frame) # rest) aligned_frames s =
     (let aligned_frames' =
            (case align_frame_features cv reference_frame frame of
               Some aligned \<Rightarrow> aligned_frames @ [aligned]
             | None \<Rightarrow> aligned_frames)
      in case call cb i total_n s of
           Inl e \<Rightarrow> Inl e
         | Inr s' \<Rightarrow> lucky_align_loop cv reference_frame total_n cb (i + 1) rest aligned_frames' s')"

text \<open>
  The three combinations of \<open>align_and_stack_lucky\<close>, on the columns of the stacked
  frames (\<open>axis=0\<close>): median and mean cast to 8 bits; the integer sum scaled by
  \<open>255 / max\<close> and clipped.  \<open>max\<close> of an empty array raises \<open>ValueError\<close>.  When the
  maximum is 0 the source computes \<open>0 / 0\<close>; the quotient is 0 here.  The list of frames
  always starts with the reference frame, whose shape is the shape of the result.
\<close>

definition columns :: "'a list list \<Rightarrow> 'a list list" where
  "columns frames = transpose frames"

definition lucky_combine :: "string \<Rightarrow> ndarray list \<Rightarrow> stack_error + ndarray" where
  "lucky_combine method aligned_frames =
     (let shp = (case aligned_frames of [] \<Rightarrow> [] | first # _ \<Rightarrow> shape first) in
      if method = ''median'' then
        Inr \<lparr>dtype = UInt8, shape = shp,
             data = map (\<lambda>col. astype UInt8 (median_list col))
                      (columns (map as_float aligned_frames))\<rparr>
      else if method = ''sum'' then
        let stacked = map sum_list (columns (map data aligned_frames)) in
        if stacked = [] then Inl PyValueError
        else
          let mx = Max (set stacked) in
          Inr \<lparr>dtype = UInt8, shape = shp,
               data = map (\<lambda>v. astype UInt8 (clip 0 255 (of_nat v * 255 / of_nat mx)))
                        stacked\<rparr>
      else
        Inr \<lparr>dtype = UInt8, shape = shp,
             data = map (\<lambda>col. astype UInt8 (sum_list col / of_nat (length aligned_frames)))
                      (columns (map as_float aligned_frames))\<rparr>)"

definition align_and_stack_lucky ::
  "cv2 \<Rightarrow> video_file \<Rightarrow> rat \<Rightarrow> string \<Rightarrow> ('s, 'r) callback option \<Rightarrow> 's
     \<Rightarrow> stack_error + (ndarray \<times> 's)" where
  "align_and_stack_lucky cv vf percentage method cb s =
     (case select_best_frames cv vf percentage cb s of
        Inl e \<Rightarrow> Inl e
      | Inr (best_frames, s1) \<Rightarrow>
         (case best_frames of
            [] \<Rightarrow> Inl NoFramesSelected
          | (reference_idx, reference_score, reference_frame) # rest \<Rightarrow>
             (case lucky_align_loop cv reference_frame (length best_frames) cb 1 rest
                     [reference_frame] s1 of
                Inl e \<Rightarrow> Inl e
              | Inr (aligned_frames, s2) \<Rightarrow>
                 (case lucky_combine method aligned_frames of
                    Inl e \<Rightarrow> Inl e
                  | Inr stacked \<Rightarrow> Inr (stacked, s2)))))"

subsection \<open>The stacker\<close>

text \<open>
  One frame of the aligned path: ECC first, ORB when ECC fails; then the quality score of
  the aligned frame, which is computed outside any \<open>try\<close> and can raise; then the test
  against the threshold.  \<open>Inr None\<close> is a rejected frame.  \<open>accepted_frame\<close> reads the
  outcome as the frame that joins the list, if any.
\<close>

definition try_align :: "cv2 \<Rightarrow> ndarray \<Rightarrow> ndarray \<Rightarrow> ndarray option" where
  "try_align cv reference frame =
     (case align_frame_ecc cv reference frame 5000 (1 / 10 ^ 6) of
        None \<Rightarrow> align_frame_orb cv reference frame 200
      | Some a \<Rightarrow> Some a)"

definition align_and_check ::
  "cv2 \<Rightarrow> ndarray \<Rightarrow> rat \<Rightarrow> ndarray \<Rightarrow> stack_error + ndarray option" where
  "align_and_check cv reference quality_threshold frame =
     (case try_align cv reference frame of
        None \<Rightarrow> Inr None
      | Some aligned \<Rightarrow>
         (case calculate_quality_score cv aligned of
            None \<Rightarrow> Inl CvError
          | Some quality \<Rightarrow>
              if quality \<ge> quality_threshold then Inr (Some aligned) else Inr None))"

definition accepted_frame :: "cv2 \<Rightarrow> ndarray \<Rightarrow> rat \<Rightarrow> ndarray \<Rightarrow> ndarray option" where
  "accepted_frame cv reference quality_threshold frame =
     (case align_and_check cv reference quality_threshold frame of
        Inl e \<Rightarrow> None
      | Inr r \<Rightarrow> r)"

text \<open>The loop \<open>for i in range(1, frame_count)\<close> of the aligned path.\<close>

fun align_loop ::
  "cv2 \<Rightarrow> video_file \<Rightarrow> ('s, 'r) callback option \<Rightarrow> ndarray \<Rightarrow> rat \<Rightarrow> nat list
     \<Rightarrow> ndarray list \<Rightarrow> 's \<Rightarrow> stack_error + (ndarray list \<times> 's)" where
  "align_loop cv vf cb reference thr [] aligned_frames s = Inr (aligned_frames, s)"
| "align_loop cv vf cb reference thr (i # is) aligned_frames s =
     (case vf_get_frame vf (int i) of
        Inl x \<Rightarrow> Inl (SourceError x)
      | Inr frame \<Rightarrow>
         (case align_and_check cv reference thr frame of
            Inl e \<Rightarrow> Inl e
          | Inr r \<Rightarrow>
              let aligned_frames' =
                    (case r of
                       Some aligned \<Rightarrow> aligned_frames @ [aligned]
                     | None \<Rightarrow> aligned_frames)
              in (case call cb (i + 1) (vf_frame_count vf) s of
                    Inl e \<Rightarrow> Inl e
                  | Inr s' \<Rightarrow> align_loop cv vf cb reference thr is aligned_frames' s')))"

text \<open>The first part of the aligned path: the reference is the first frame and opens the
  list; its quality score is computed (the score goes to the list \<open>quality_scores\<close>, which
  is never read, but the call can raise); progress is reported for it; the other frames
  go through the loop.\<close>

definition aligned_frames_of ::
  "cv2 \<Rightarrow> video_file \<Rightarrow> ('s, 'r) callback option \<Rightarrow> ndarray \<Rightarrow> rat \<Rightarrow> 's
     \<Rightarrow> stack_error + (ndarray list \<times> 's)" where
  "aligned_frames_of cv vf cb first_frame thr s =
     (let reference = first_frame in
      case calculate_quality_score cv reference of
        None \<Rightarrow> Inl CvError
      | Some quality \<Rightarrow>
         (case call cb 1 (vf_frame_count vf) s of
            Inl e \<Rightarrow> Inl e
          | Inr s1 \<Rightarrow>
              align_loop cv vf cb reference thr [1..<vf_frame_count vf] [reference] s1))"

text \<open>Sum of the frames in a float64 accumulator that starts at zero and has the shape of
  the first frame.  The frames of one file, and the frames warped to the size of the
  reference, have the shape of the first frame.\<close>

definition accumulate :: "ndarray \<Rightarrow> ndarray list \<Rightarrow> rat list" where
  "accumulate first_frame frames =
     foldl (\<lambda>acc frame. map2 (+) acc (as_float frame))
       (replicate (length (data first_frame)) 0) frames"

definition like :: "ndarray \<Rightarrow> nat list \<Rightarrow> ndarray" where
  "like first_frame xs = first_frame\<lparr>data := xs\<rparr>"

text \<open>
  The last step of each method, written twice in the source (with and without alignment):
  the median of the buffered frames, the stretched sum, and the sum divided by the number
  of frames, each cast (or stretched) to the type of the first frame.  For the sum the
  stretch is unconditional.  The stretch raises on an empty image.
\<close>

definition finish_median :: "ndarray \<Rightarrow> bool \<Rightarrow> rat list list \<Rightarrow> stack_error + ndarray" where
  "finish_median first_frame auto_stretch frames =
     (let stacked_float = map median_list (columns frames) in
      if auto_stretch
      then (case auto_stretch_impl stacked_float (dtype first_frame) of
              Inl e \<Rightarrow> Inl e
            | Inr stacked \<Rightarrow> Inr (like first_frame stacked))
      else Inr (like first_frame (map (astype (dtype first_frame)) stacked_float)))"

definition finish_sum :: "ndarray \<Rightarrow> rat list \<Rightarrow> stack_error + ndarray" where
  "finish_sum first_frame accumulator =
     (case auto_stretch_impl accumulator (dtype first_frame) of
        Inl e \<Rightarrow> Inl e
      | Inr stacked \<Rightarrow> Inr (like first_frame stacked))"

definition finish_average :: "ndarray \<Rightarrow> bool \<Rightarrow> nat \<Rightarrow> rat list \<Rightarrow> stack_error + ndarray" where
  "finish_average first_frame auto_stretch count accumulator =
     (let averaged = map (\<lambda>x. x / of_nat count) accumulator in
      if auto_stretch
      then (case auto_stretch_impl averaged (dtype first_frame) of
              Inl e \<Rightarrow> Inl e
            | Inr stacked \<Rightarrow> Inr (like first_frame stacked))
      else Inr (like first_frame (map (astype (dtype first_frame)) averaged)))"

text \<open>The second part of the aligned path: \<open>used_frames\<close> is the length of the list of
  aligned frames and divides the sum in the average.\<close>

definition combine_aligned ::
  "string \<Rightarrow> bool \<Rightarrow> ndarray \<Rightarrow> ndarray list \<Rightarrow> stack_error + ndarray" where
  "combine_aligned method auto_stretch first_frame aligned_frames =
     (let used_frames = length aligned_frames in
      if method = ''median'' then
        finish_median first_frame auto_stretch (map as_float aligned_frames)
      else if method = ''sum'' then
        finish_sum first_frame (accumulate first_frame aligned_frames)
      else
        finish_average first_frame auto_stretch used_frames
          (accumulate first_frame aligned_frames))"

text \<open>The loops of the path without alignment: the median loop keeps every frame, the
  loop shared by sum and average adds it to the accumulator.\<close>

fun median_loop ::
  "video_file \<Rightarrow> ('s, 'r) callback option \<Rightarrow> nat list \<Rightarrow> rat list list \<Rightarrow> 's
     \<Rightarrow> stack_error + (rat list list \<times> 's)" where
  "median_loop vf cb [] frames s = Inr (frames, s)"
| "median_loop vf cb (i # is) frames s =
     (case vf_get_frame vf (int i) of
        Inl x \<Rightarrow> Inl (SourceError x)
      | Inr frame \<Rightarrow>
         (case call cb (i + 1) (vf_frame_count vf) s of
            Inl e \<Rightarrow> Inl e
          | Inr s' \<Rightarrow> median_loop vf cb is (frames @ [as_float frame]) s'))"

fun sum_loop ::
  "video_file \<Rightarrow> ('s, 'r) callback option \<Rightarrow> nat list \<Rightarrow> rat list \<Rightarrow> 's
     \<Rightarrow> stack_error + (rat list \<times> 's)" where
  "sum_loop vf cb [] accumulator s = Inr (accumulator, s)"
| "sum_loop vf cb (i # is) accumulator s =
     (case vf_get_frame vf (int i) of
        Inl x \<Rightarrow> Inl (SourceError x)
      | Inr frame \<Rightarrow>
         (case call cb (i + 1) (vf_frame_count vf) s of
            Inl e \<Rightarrow> Inl e
          | Inr s' \<Rightarrow> sum_loop vf cb is (map2 (+) accumulator (as_float frame)) s'))"

text \<open>A result of the last step, returned with the callback's state.\<close>

definition returning :: "stack_error + ndarray \<Rightarrow> 's \<Rightarrow> stack_error + (ndarray \<times> 's)" where
  "returning r s = (case r of Inl e \<Rightarrow> Inl e | Inr stacked \<Rightarrow> Inr (stacked, s))"

text \<open>
  \<open>stack_frames\<close>.  AVI and MP4 files go to lucky imaging with 10 percent, whatever
  \<open>align_frames\<close> says.  Otherwise the first frame is read; with alignment the aligned
  frames are collected and combined; without it the frames are combined as they come.
  The value returned is the stacked array alone.
\<close>

definition stack_frames ::
  "cv2 \<Rightarrow> video_file \<Rightarrow> string \<Rightarrow> ('s, 'r) callback option \<Rightarrow> bool \<Rightarrow> bool \<Rightarrow> rat \<Rightarrow> 's
     \<Rightarrow> stack_error + (ndarray \<times> 's)" where
  "stack_frames cv ser_file method progress_callback auto_stretch align_frames
       quality_threshold s =
     (let n = vf_frame_count ser_file in
      if file_type ser_file \<in> {''AVI'', ''MP4''}
      then align_and_stack_lucky cv ser_file 10 method progress_callback s
      else
        case vf_get_frame ser_file 0 of
          Inl x \<Rightarrow> Inl (SourceError x)
        | Inr first_frame \<Rightarrow>
            if align_frames then
              (case aligned_frames_of cv ser_file progress_callback first_frame
                      quality_threshold s of
                 Inl e \<Rightarrow> Inl e
               | Inr (aligned_frames, s') \<Rightarrow>
                   returning (combine_aligned method auto_stretch first_frame aligned_frames)
                     s')
            else if method = ''median'' then
              (case median_loop ser_file progress_callback [0..<n] [] s of
                 Inl e \<Rightarrow> Inl e
               | Inr (frames, s') \<Rightarrow>
                   returning (finish_median first_frame auto_stretch frames) s')
            else if method = ''sum'' then
              (case sum_loop ser_file progress_callback [0..<n]
                      (replicate (length (data first_frame)) 0) s of
                 Inl e \<Rightarrow> Inl e
               | Inr (accumulator, s') \<Rightarrow> returning (finish_sum first_frame accumulator) s')
            else
              (case sum_loop ser_file progress_callback [0..<n]
                      (replicate (length (data first_frame)) 0) s of
                 Inl e \<Rightarrow> Inl e
               | Inr (accumulator, s') \<Rightarrow>
                   returning (finish_average first_frame auto_stretch n accumulator) s'))"

subsection \<open>Progress calls and examples\<close>

text \<open>
  The progress calls of a run in which nothing fails, in order: \<open>(i + 1, frame_count)\<close>
  after frame \<open>i\<close>; for an AVI or MP4 file that is the scoring pass, followed by
  \<open>(k, kept)\<close> after the \<open>k\<close>-th of the kept frames that come after the reference.
\<close>

definition progress_calls :: "video_file \<Rightarrow> (nat \<times> nat) list" where
  "progress_calls vf =
     (let n = vf_frame_count vf;
          per_frame = map (\<lambda>i. (i + 1, n)) [0..<n]
      in
      if file_type vf \<in> {''AVI'', ''MP4''} then
        let kept = min (max 1 (nat \<lfloor>of_nat n * (10::rat) / 100\<rfloor>)) n
        in per_frame @ map (\<lambda>k. (k, kept)) [1..<Suc (kept - 1)]
      else per_frame)"

text \<open>The container of the end-to-end scenario: five mono 8-bit 4\<times>4 frames of constant
  value 10, 20, 30, 40, 50, as the bytes of a SER file and as the opened file.\<close>

definition ex5_bytes :: "byte list" where
  "ex5_bytes = mk_header [0,0,0,0] [0,0,0,0] [0,0,0,0] [4,0,0,0] [4,0,0,0] [8,0,0,0] [5,0,0,0]
     @ replicate 16 10 @ replicate 16 20 @ replicate 16 30 @ replicate 16 40 @ replicate 16 50"

definition ex5_hdr :: SERHeader where
  "ex5_hdr = \<lparr>file_id = FILE_ID, lu_id = 0, color_id = 0, little_endian = 0,
      image_width = 4, image_height = 4, pixel_depth = 8, frame_count = 5,
      observer = [], instrument = [], telescope = [], datetime_utc = 0\<rparr>"

definition ex5_file :: video_file where
  "ex5_file =
     \<lparr>file_type = ''SER'', vf_frame_count = 5,
      vf_get_frame = (\<lambda>i. case get_frame \<lparr>file_bytes = ex5_bytes, header = Some ex5_hdr,
                                          frame_size = 16, has_ts = False\<rparr> i of
                             Inl e \<Rightarrow> Inl (SERFailure e)
                           | Inr a \<Rightarrow> Inr a)\<rparr>"

text \<open>
  What it takes for frame \<open>i\<close> to be read and processed without an exception, \<open>F i\<close> being
  the frame read: in the lucky path its sharpness is computed; in the aligned path the
  quality of the reference (frame 0) or of the aligned frame is computed; without
  alignment nothing but the read can fail.  \<open>frames_ok ... k\<close> says so of the first \<open>k\<close>
  frames.
\<close>

definition frame_step_ok ::
  "cv2 \<Rightarrow> video_file \<Rightarrow> bool \<Rightarrow> rat \<Rightarrow> (nat \<Rightarrow> ndarray) \<Rightarrow> nat \<Rightarrow> bool" where
  "frame_step_ok cv vf align_frames thr F i =
     (vf_get_frame vf (int i) = Inr (F i) \<and>
      (if file_type vf \<in> {''AVI'', ''MP4''} then calculate_sharpness cv (F i) \<noteq> None
       else if align_frames then
         (if i = 0 then calculate_quality_score cv (F 0) \<noteq> None
          else \<not> isl (align_and_check cv (F 0) thr (F i)))
       else True))"

definition frames_ok ::
  "cv2 \<Rightarrow> video_file \<Rightarrow> bool \<Rightarrow> rat \<Rightarrow> (nat \<Rightarrow> ndarray) \<Rightarrow> nat \<Rightarrow> bool" where
  "frames_ok cv vf align_frames thr F k = list_all (frame_step_ok cv vf align_frames thr F) [0..<k]"

text \<open>The composite of the path without alignment, from the first frame and the frames
  read by the loop: the frame count divides the sum in the average.\<close>

definition combine_unaligned ::
  "string \<Rightarrow> bool \<Rightarrow> ndarray \<Rightarrow> ndarray list \<Rightarrow> stack_error + ndarray" where
  "combine_unaligned method auto_stretch first_frame frames =
     (if method = ''median'' then finish_median first_frame auto_stretch (map as_float frames)
      else if method = ''sum'' then finish_sum first_frame (accumulate first_frame frames)
      else finish_average first_frame auto_stretch (length frames)
             (accumulate first_frame frames))"

text \<open>The number of frames that lucky imaging keeps: 10 percent, at least one.\<close>

definition kept_count :: "video_file \<Rightarrow> nat" where
  "kept_count vf =
     min (max 1 (nat \<lfloor>of_nat (vf_frame_count vf) * (10::rat) / 100\<rfloor>)) (vf_frame_count vf)"

text \<open>A callback with its replies replaced: \<open>with_reply g f\<close> raises when \<open>f\<close> raises and
  returns \<open>g r\<close> where \<open>f\<close> returns \<open>r\<close>.\<close>

definition with_reply :: "('r \<Rightarrow> 'q) \<Rightarrow> ('s, 'r) callback \<Rightarrow> ('s, 'q) callback" where
  "with_reply g f current total_n s =
     (case f current total_n s of
        Inl e \<Rightarrow> Inl e
      | Inr (r, s') \<Rightarrow> Inr (g r, s'))"

text \<open>
  Files and callbacks for examples: a file of two equal one-pixel frames, of the given
  type, and its frames; the same file with an unreadable second frame; a callback that
  counts its calls and raises at the call whose first argument is \<open>k\<close>, as the main
  window's callback does once Cancel is pressed; a callback that returns \<open>Cancel\<close> at
  every call (the two replies of the specification's contract for the callback are
  \<open>Continue\<close> and \<open>Cancel\<close>); and a callback that raises the I/O error of the parser.
\<close>

datatype progress_reply = Continue | Cancel

definition ex2_file :: "string \<Rightarrow> video_file" where
  "ex2_file ft =
     \<lparr>file_type = ft, vf_frame_count = 2,
      vf_get_frame = (\<lambda>i. if 0 \<le> i \<and> i < 2 then Inr ex_img
                           else Inl (SERFailure SERIndexError))\<rparr>"

definition ex2_frames :: "nat \<Rightarrow> ndarray" where
  "ex2_frames i = ex_img"

definition ex2_bad_file :: video_file where
  "ex2_bad_file =
     \<lparr>file_type = ''SER'', vf_frame_count = 2,
      vf_get_frame = (\<lambda>i. if i = 0 then Inr ex_img
                           else if i = 1 then Inl (SERFailure SERIOError)
                           else Inl (SERFailure SERIndexError))\<rparr>"

definition cancel_at :: "nat \<Rightarrow> (nat, unit) callback" where
  "cancel_at k current total_n s =
     (if current = k then Inl (PyException ''Stacking cancelled by user'')
      else Inr ((), s + 1))"

definition always_cancel :: "(nat, progress_reply) callback" where
  "always_cancel current total_n s = Inr (Cancel, s + 1)"

definition raise_io_error :: "(nat, unit) callback" where
  "raise_io_error current total_n s = Inl (SourceError (SERFailure SERIOError))"

section \<open>Properties of the container parser\<close>

lemmas parse_defs = mk_header_def parse_header_def SERParser_init_def HEADER_SIZE_def
  FILE_ID_def bytes_slice_def rstrip0_def unpack_be_def VALID_COLOR_IDS_def VALID_PIXEL_DEPTHS_def
  calculate_frame_size_def Let_def

lemma unpack_le_zeros: "unpack_le (replicate n 0) = 0"
  by (induction n) simp_all

lemma parse_header_ok:
  assumes "parse_header p = Inr p'"
  shows "\<exists>h. header p' = Some h \<and> file_bytes p' = file_bytes p \<and> frame_count h \<noteq> 0
          \<and> calculate_frame_size p' = Inr (frame_size p')
          \<and> has_ts p' = (length (file_bytes p)
                = HEADER_SIZE + frame_count h * frame_size p' + frame_count h * 8)"
  using assms
  unfolding parse_header_def Let_def calculate_frame_size_def
  by (auto split: if_splits sum.splits)

lemma ex_ts_parse: "parse_header (SERParser_init ex_ts) =
   Inr \<lparr>file_bytes = ex_ts, header = Some ex_hdr, frame_size = 1, has_ts = True\<rparr>"
  by (simp add: ex_ts_def ex_hdr_def parse_defs unpack_le_zeros)

lemma ex_nots_parse: "parse_header (SERParser_init ex_nots) =
   Inr \<lparr>file_bytes = ex_nots, header = Some ex_hdr, frame_size = 1, has_ts = False\<rparr>"
  by (simp add: ex_nots_def ex_hdr_def parse_defs unpack_le_zeros)

lemma ex_le_parse: "parse_header (SERParser_init ex_le) =
   Inr \<lparr>file_bytes = ex_le, header = Some ex_le_hdr, frame_size = 4, has_ts = False\<rparr>"
  by (simp add: ex_le_def ex_le_hdr_def parse_defs unpack_le_zeros)

lemma ex_be_parse: "parse_header (SERParser_init ex_be) =
   Inr \<lparr>file_bytes = ex_be, header = Some ex_be_hdr, frame_size = 4, has_ts = False\<rparr>"
  by (simp add: ex_be_def ex_be_hdr_def parse_defs unpack_le_zeros)

text \<open>
  Claim C4.  After a successful \<open>parse_header\<close> on a file with \<open>n\<close> frames of \<open>s\<close> bytes
  each (\<open>s\<close> the value of \<open>calculate_frame_size\<close>), \<open>has_timestamps\<close> is true exactly when
  the file size is \<open>178 + n * s + n * 8\<close>.
\<close>

theorem has_timestamps_exact:
  assumes "parse_header p = Inr p'"
  shows "\<exists>h. header p' = Some h \<and> calculate_frame_size p' = Inr (frame_size p') \<and>
           (has_timestamps p' \<longleftrightarrow>
              length (file_bytes p') = 178 + frame_count h * frame_size p' + frame_count h * 8)"
  using parse_header_ok[OF assms] by (auto simp: has_timestamps_def HEADER_SIZE_def)

theorem has_timestamps_exact_witness:
  "parse_header (SERParser_init ex_ts)
      = Inr \<lparr>file_bytes = ex_ts, header = Some ex_hdr, frame_size = 1, has_ts = True\<rparr>
   \<and> length ex_ts = 178 + 1 * 1 + 1 * 8
   \<and> has_timestamps \<lparr>file_bytes = ex_ts, header = Some ex_hdr, frame_size = 1, has_ts = True\<rparr>
   \<and> parse_header (SERParser_init ex_nots)
      = Inr \<lparr>file_bytes = ex_nots, header = Some ex_hdr, frame_size = 1, has_ts = False\<rparr>
   \<and> length ex_nots = 178 + 1 * 1 + 1 * 8 - 1
   \<and> \<not> has_timestamps \<lparr>file_bytes = ex_nots, header = Some ex_hdr, frame_size = 1, has_ts = False\<rparr>"
  using has_timestamps_exact[OF ex_ts_parse] has_timestamps_exact[OF ex_nots_parse]
    ex_ts_parse ex_nots_parse
  by (simp add: ex_hdr_def) (simp add: ex_ts_def ex_nots_def mk_header_def FILE_ID_def)

text \<open>
  Claim C5.  In a header that parses, when the word at offset 22 (read little-endian, as
  the code reads it) is 0, the sub-format id, color-format id, width, height,
  bits-per-sample, frame count and capture time are the little-endian values of their
  bytes; when it is 1 they are the big-endian values.
\<close>

theorem parse_header_byte_order:
  assumes "parse_header p = Inr p'" and "header p' = Some h"
  shows "(unpack_le (bytes_slice 22 26 (file_bytes p)) = 0 \<longrightarrow>
            lu_id h = unpack_le (bytes_slice 14 18 (file_bytes p)) \<and>
            color_id h = unpack_le (bytes_slice 18 22 (file_bytes p)) \<and>
            image_width h = unpack_le (bytes_slice 26 30 (file_bytes p)) \<and>
            image_height h = unpack_le (bytes_slice 30 34 (file_bytes p)) \<and>
            pixel_depth h = unpack_le (bytes_slice 34 38 (file_bytes p)) \<and>
            frame_count h = unpack_le (bytes_slice 38 42 (file_bytes p)) \<and>
            datetime_utc h = unpack_le (bytes_slice 162 170 (file_bytes p))) \<and>
         (unpack_le (bytes_slice 22 26 (file_bytes p)) = 1 \<longrightarrow>
            lu_id h = unpack_be (bytes_slice 14 18 (file_bytes p)) \<and>
            color_id h = unpack_be (bytes_slice 18 22 (file_bytes p)) \<and>
            image_width h = unpack_be (bytes_slice 26 30 (file_bytes p)) \<and>
            image_height h = unpack_be (bytes_slice 30 34 (file_bytes p)) \<and>
            pixel_depth h = unpack_be (bytes_slice 34 38 (file_bytes p)) \<and>
            frame_count h = unpack_be (bytes_slice 38 42 (file_bytes p)) \<and>
            datetime_utc h = unpack_be (bytes_slice 162 170 (file_bytes p)))"
proof -
  have sl: "bytes_slice a b (take HEADER_SIZE (file_bytes p)) = bytes_slice a b (file_bytes p)"
    if "a \<le> b" and "b \<le> 178" for a b
    using that by (simp add: bytes_slice_def HEADER_SIZE_def drop_take min_def)
  show ?thesis
    using assms
    unfolding parse_header_def Let_def calculate_frame_size_def
    by (auto split: if_splits sum.splits simp: sl)
qed

theorem parse_header_byte_order_witness:
  "unpack_le (bytes_slice 22 26 ex_le) = 0 \<and> unpack_le (bytes_slice 22 26 ex_be) = 1 \<and>
   parse_header (SERParser_init ex_le) =
     Inr \<lparr>file_bytes = ex_le, header = Some ex_le_hdr, frame_size = 4, has_ts = False\<rparr> \<and>
   parse_header (SERParser_init ex_be) =
     Inr \<lparr>file_bytes = ex_be, header = Some ex_be_hdr, frame_size = 4, has_ts = False\<rparr> \<and>
   image_width ex_le_hdr = unpack_le (bytes_slice 26 30 ex_le) \<and>
   image_width ex_be_hdr = unpack_be (bytes_slice 26 30 ex_be) \<and>
   unpack_be (bytes_slice 26 30 ex_be) = 2 \<and> unpack_le (bytes_slice 26 30 ex_be) = 33554432"
proof -
  have le0: "unpack_le (bytes_slice 22 26 ex_le) = 0"
    by (simp add: ex_le_def mk_header_def FILE_ID_def bytes_slice_def)
  have be1: "unpack_le (bytes_slice 22 26 ex_be) = 1"
    by (simp add: ex_be_def mk_header_def FILE_ID_def bytes_slice_def)
  have vals: "unpack_be (bytes_slice 26 30 ex_be) = 2 \<and> unpack_le (bytes_slice 26 30 ex_be) = 33554432"
    by (simp add: ex_be_def mk_header_def FILE_ID_def bytes_slice_def unpack_be_def)
  from parse_header_byte_order[OF ex_le_parse, of ex_le_hdr] le0
  have a: "image_width ex_le_hdr = unpack_le (bytes_slice 26 30 ex_le)"
    by (simp add: SERParser_init_def)
  from parse_header_byte_order[OF ex_be_parse, of ex_be_hdr] be1
  have b: "image_width ex_be_hdr = unpack_be (bytes_slice 26 30 ex_be)"
    by (simp add: SERParser_init_def)
  show ?thesis using le0 be1 vals a b ex_le_parse ex_be_parse by simp
qed

text \<open>
  Claim C9, as amended.  On a parsed container, an index outside \<open>[0, frame_count)\<close> makes
  \<open>get_frame\<close> raise \<open>SERIndexError\<close>; \<open>get_timestamp\<close> raises it when the file has a
  timestamp trailer and returns \<open>None\<close> when it has none.
\<close>

theorem index_out_of_range:
  assumes "header p = Some h" and "i < 0 \<or> int (frame_count h) \<le> i"
  shows "get_frame p i = Inl SERIndexError \<and>
         get_timestamp p i = (if has_timestamps p then Inl SERIndexError else Inr None)"
  using assms by (auto simp: get_frame_def get_timestamp_def has_timestamps_def)

theorem index_out_of_range_witness:
  "header \<lparr>file_bytes = ex_ts, header = Some ex_hdr, frame_size = 1, has_ts = True\<rparr>
      = Some ex_hdr \<and> int (frame_count ex_hdr) \<le> 1 \<and>
   get_frame \<lparr>file_bytes = ex_ts, header = Some ex_hdr, frame_size = 1, has_ts = True\<rparr> 1
      = Inl SERIndexError \<and>
   get_timestamp \<lparr>file_bytes = ex_ts, header = Some ex_hdr, frame_size = 1, has_ts = True\<rparr> 1
      = Inl SERIndexError \<and>
   get_frame \<lparr>file_bytes = ex_ts, header = Some ex_hdr, frame_size = 1, has_ts = True\<rparr> (- 1)
      = Inl SERIndexError"
  using index_out_of_range[of "\<lparr>file_bytes = ex_ts, header = Some ex_hdr, frame_size = 1, has_ts = True\<rparr>" ex_hdr 1]
    index_out_of_range[of "\<lparr>file_bytes = ex_ts, header = Some ex_hdr, frame_size = 1, has_ts = True\<rparr>" ex_hdr "- 1"]
  by (simp add: ex_hdr_def has_timestamps_def)

text \<open>The claim as first stated fails: the file \<open>ex_nots\<close> parses, has one frame and no
  trailer, and \<open>get_timestamp\<close> at index 7 returns \<open>None\<close> instead of raising.\<close>

theorem get_timestamp_no_trailer_counterexample:
  "parse_header (SERParser_init ex_nots)
      = Inr \<lparr>file_bytes = ex_nots, header = Some ex_hdr, frame_size = 1, has_ts = False\<rparr> \<and>
   frame_count ex_hdr = 1 \<and>
   get_timestamp \<lparr>file_bytes = ex_nots, header = Some ex_hdr, frame_size = 1, has_ts = False\<rparr> 7
      = Inr None \<and>
   get_timestamp \<lparr>file_bytes = ex_nots, header = Some ex_hdr, frame_size = 1, has_ts = False\<rparr> 7
      \<noteq> Inl SERIndexError"
  using ex_nots_parse by (simp add: get_timestamp_def ex_hdr_def)

section \<open>Properties of the color reconstruction\<close>

lemmas color_ids = COLOR_MONO_def COLOR_BAYER_RGGB_def COLOR_BAYER_GRBG_def
  COLOR_BAYER_GBRG_def COLOR_BAYER_BGGR_def COLOR_BAYER_CYYM_def COLOR_BAYER_YCMY_def
  COLOR_BAYER_YMCY_def COLOR_BAYER_MYYC_def COLOR_RGB_def COLOR_BGR_def







lemma ex_frame_cyym:
  "debayer_cyym (ex_env ''YCMY'') ex_frame ''YCMY'' =
     Inr \<lparr>dtype = UInt8, shape = [2, 2, 3],
          data = [22, 22, 47, 22, 22, 47, 22, 22, 47, 22, 22, 47]\<rparr>"
  by code_simp

lemma ex_frame_mono:
  "mono_to_rgb ex_frame =
     Inr \<lparr>dtype = UInt8, shape = [2, 2, 3],
          data = [50, 50, 50, 70, 70, 70, 70, 70, 70, 40, 40, 40]\<rparr>"
  by code_simp

text \<open>
  Claim C1, as amended.  Of the four CYYM-family identifiers, only
  \<open>COLOR_BAYER_CYYM = 8\<close> is converted by the CYYM solver, with the configured
  orientation; the identifiers 9, 16 and 17 are rendered by the mono path.  (The frame is
  first reduced to 8 bits when the pixel depth is 16.)
\<close>

theorem process_frame_cyym_family:
  assumes "cid \<in> {COLOR_BAYER_CYYM, COLOR_BAYER_YCMY, COLOR_BAYER_YMCY, COLOR_BAYER_MYYC}"
  shows "process_frame env raw cid pd =
           (let a = (if pd = 16 then normalize_16bit raw else raw) in
            if cid = COLOR_BAYER_CYYM then debayer_cyym env a (CYYM_PATTERN env)
            else mono_to_rgb a) \<and>
         debayer env raw cid =
           (if cid = COLOR_BAYER_CYYM then debayer_cyym env raw (CYYM_PATTERN env)
            else mono_to_rgb raw)"
  using assms
  by (auto simp: process_frame_def debayer_def BAYER_PATTERNS_def pattern_names_def
        color_ids Let_def split: option.splits)

theorem process_frame_cyym_family_witness:
  "COLOR_BAYER_CYYM \<in> {COLOR_BAYER_CYYM, COLOR_BAYER_YCMY, COLOR_BAYER_YMCY, COLOR_BAYER_MYYC} \<and>
   COLOR_BAYER_YCMY \<in> {COLOR_BAYER_CYYM, COLOR_BAYER_YCMY, COLOR_BAYER_YMCY, COLOR_BAYER_MYYC} \<and>
   process_frame (ex_env ''YCMY'') ex_frame COLOR_BAYER_CYYM 8 =
     Inr \<lparr>dtype = UInt8, shape = [2, 2, 3],
          data = [22, 22, 47, 22, 22, 47, 22, 22, 47, 22, 22, 47]\<rparr> \<and>
   process_frame (ex_env ''YCMY'') ex_frame COLOR_BAYER_YCMY 8 =
     Inr \<lparr>dtype = UInt8, shape = [2, 2, 3],
          data = [50, 50, 50, 70, 70, 70, 70, 70, 70, 40, 40, 40]\<rparr>"
  using process_frame_cyym_family[of COLOR_BAYER_CYYM "ex_env ''YCMY''" ex_frame 8]
    process_frame_cyym_family[of COLOR_BAYER_YCMY "ex_env ''YCMY''" ex_frame 8]
    ex_frame_cyym ex_frame_mono
  by (simp add: color_ids ex_env_def)

text \<open>The claim as first stated fails at the identifier 9: with the orientation set to
  YCMY, the frame \<open>ex_frame\<close> comes out of \<open>process_frame\<close> as the mono rendering, which
  differs from what the CYYM solver gives.\<close>

theorem process_frame_ycmy_counterexample:
  "process_frame (ex_env ''YCMY'') ex_frame COLOR_BAYER_YCMY 8 = mono_to_rgb ex_frame \<and>
   process_frame (ex_env ''YCMY'') ex_frame COLOR_BAYER_YCMY 8
     \<noteq> debayer_cyym (ex_env ''YCMY'') ex_frame (CYYM_PATTERN (ex_env ''YCMY''))"
  by code_simp



section \<open>Properties of the aligners\<close>

lemma ex_cv_transform_orb:
  "feature_transform (ex_cv False True 1000 0) 10000 (3 / 4) 5 5000 ex_img ex_img
     = Some (Affine 1 0 1000 0 1 0)"
  by code_simp

lemma ex_cv_transform_lucky:
  "feature_transform (ex_cv False True 1000 0) 5000 (7 / 10) 3 2000 ex_img ex_img
     = Some (Affine 1 0 1000 0 1 0)"
  by code_simp

lemma ex_cv2_transform_orb:
  "feature_transform (ex_cv2 False True (7 / 5) 1000 0) 10000 (3 / 4) 5 5000 ex_img ex_img
     = Some (Affine 1 0 1000 0 1 0)"
  by code_simp

text \<open>
  Claim C7, as amended.  In the stacking path (\<open>FrameAligner.align_frame_orb\<close>), when the
  estimated transform has a horizontal or a vertical translation larger than \<open>max_shift\<close>
  in absolute value, the result is the alignment failure \<open>None\<close>.  In the lucky-imaging
  path (\<open>LuckyImaging.align_frame_features\<close>) there is no such check: every estimated
  transform goes to the warp, whatever its translation.  Each half has its own
  hypothesis only.
\<close>

theorem align_frame_orb_max_shift:
  "(feature_transform cv 10000 (3 / 4) 5 5000 reference frame = Some M \<and>
      (\<bar>shift_x M\<bar> > of_int max_shift \<or> \<bar>shift_y M\<bar> > of_int max_shift)
      \<longrightarrow> align_frame_orb cv reference frame max_shift = None) \<and>
   (feature_transform cv 5000 (7 / 10) 3 2000 reference frame = Some M'
      \<longrightarrow> align_frame_features cv reference frame = warp_to cv reference frame M' False)"
  by (auto simp: align_frame_orb_def align_frame_features_def)

text \<open>The first half is applied to a pair whose lucky-path estimate does not exist (the
  ratio test at 0.7 rejects matches that the test at 0.75 keeps), the second to a pair
  with a translation of 1000 pixels.\<close>

theorem align_frame_orb_max_shift_witness:
  "feature_transform (ex_cv2 False True (7 / 5) 1000 0) 10000 (3 / 4) 5 5000 ex_img ex_img
     = Some (Affine 1 0 1000 0 1 0) \<and>
   \<bar>shift_x (Affine 1 0 1000 0 1 0)\<bar> > of_int 200 \<and>
   feature_transform (ex_cv2 False True (7 / 5) 1000 0) 5000 (7 / 10) 3 2000 ex_img ex_img
     = None \<and>
   align_frame_orb (ex_cv2 False True (7 / 5) 1000 0) ex_img ex_img 200 = None \<and>
   feature_transform (ex_cv False True 1000 0) 5000 (7 / 10) 3 2000 ex_img ex_img
     = Some (Affine 1 0 1000 0 1 0) \<and>
   align_frame_features (ex_cv False True 1000 0) ex_img ex_img = Some ex_img"
proof -
  have s: "\<bar>shift_x (Affine 1 0 1000 0 1 0)\<bar> > of_int 200
             \<or> \<bar>shift_y (Affine 1 0 1000 0 1 0)\<bar> > of_int 200"
    by simp
  have n: "feature_transform (ex_cv2 False True (7 / 5) 1000 0) 5000 (7 / 10) 3 2000
             ex_img ex_img = None"
    by code_simp
  have w: "warp_to (ex_cv False True 1000 0) ex_img ex_img (Affine 1 0 1000 0 1 0) False
             = Some ex_img"
    by code_simp
  from align_frame_orb_max_shift[of "ex_cv2 False True (7 / 5) 1000 0" ex_img ex_img
      "Affine 1 0 1000 0 1 0" 200] ex_cv2_transform_orb s
  have a: "align_frame_orb (ex_cv2 False True (7 / 5) 1000 0) ex_img ex_img 200 = None"
    by blast
  from align_frame_orb_max_shift[of "ex_cv False True 1000 0" ex_img ex_img _ _
      "Affine 1 0 1000 0 1 0"] ex_cv_transform_lucky w
  have b: "align_frame_features (ex_cv False True 1000 0) ex_img ex_img = Some ex_img"
    by simp
  from a b n ex_cv2_transform_orb ex_cv_transform_lucky show ?thesis by simp
qed

text \<open>The claim as first stated fails in the lucky-imaging path, where a translation of
  1000 pixels is applied and an aligned frame returned; and in the stacking path the test
  is per axis, so the translation \<open>(150, 150)\<close>, of magnitude above 200, is accepted.\<close>

theorem align_frame_features_no_max_shift_counterexample:
  "feature_transform (ex_cv False True 1000 0) 5000 (7 / 10) 3 2000 ex_img ex_img
     = Some (Affine 1 0 1000 0 1 0) \<and>
   align_frame_features (ex_cv False True 1000 0) ex_img ex_img = Some ex_img \<and>
   feature_transform (ex_cv False True 150 150) 10000 (3 / 4) 5 5000 ex_img ex_img
     = Some (Affine 1 0 150 0 1 150) \<and>
   (200::rat) ^ 2 < 150 ^ 2 + 150 ^ 2 \<and>
   align_frame_orb (ex_cv False True 150 150) ex_img ex_img 200 = Some ex_img"
  by code_simp

section \<open>Properties of the stacker\<close>

text \<open>The progress calls of a list, and the first call that raises.\<close>

lemma run_callbacks_append:
  "run_callbacks cb (xs @ ys) s =
     (case run_callbacks cb xs s of Inl e \<Rightarrow> Inl e | Inr s' \<Rightarrow> run_callbacks cb ys s')"
  by (induction xs arbitrary: s) (auto split: sum.splits)

lemma run_callbacks_raise_at:
  assumes k: "k < length cs"
    and before: "run_callbacks cb (take k cs) s = Inr s1"
    and raise: "call cb (fst (cs ! k)) (snd (cs ! k)) s1 = Inl e"
  shows "run_callbacks cb cs s = Inl e"
proof -
  obtain c t where ct: "cs ! k = (c, t)" by (cases "cs ! k") auto
  have cs: "cs = take k cs @ (c, t) # drop (Suc k) cs"
    using id_take_nth_drop[OF k] ct by simp
  have "run_callbacks cb (take k cs @ (c, t) # drop (Suc k) cs) s = Inl e"
    using raise ct by (simp add: run_callbacks_append before)
  with cs show ?thesis by simp
qed

text \<open>The value returned by the callback is never used: two callbacks whose calls raise
  alike and leave the same state give the same run of every loop.\<close>

lemma sum_loop_call_cong:
  assumes "\<And>c t s. call cb1 c t s = call cb2 c t s"
  shows "sum_loop vf cb1 is acc s = sum_loop vf cb2 is acc s"
  by (induction "is" arbitrary: acc s) (auto simp: assms split: sum.splits)

lemma median_loop_call_cong:
  assumes "\<And>c t s. call cb1 c t s = call cb2 c t s"
  shows "median_loop vf cb1 is frames s = median_loop vf cb2 is frames s"
  by (induction "is" arbitrary: frames s) (auto simp: assms split: sum.splits)

lemma align_loop_call_cong:
  assumes "\<And>c t s. call cb1 c t s = call cb2 c t s"
  shows "align_loop cv vf cb1 reference thr is aligned s
       = align_loop cv vf cb2 reference thr is aligned s"
  by (induction "is" arbitrary: aligned s) (auto simp: assms Let_def split: sum.splits)

lemma score_loop_call_cong:
  assumes "\<And>c t s. call cb1 c t s = call cb2 c t s"
  shows "score_loop cv vf cb1 is scores s = score_loop cv vf cb2 is scores s"
  by (induction "is" arbitrary: scores s) (auto simp: assms split: sum.splits option.splits)

lemma lucky_align_loop_call_cong:
  assumes "\<And>c t s. call cb1 c t s = call cb2 c t s"
  shows "lucky_align_loop cv reference total_n cb1 i rest aligned s
       = lucky_align_loop cv reference total_n cb2 i rest aligned s"
  by (induction rest arbitrary: i aligned s) (auto simp: assms Let_def split: sum.splits)

lemma select_best_frames_call_cong:
  assumes h: "\<And>c t s. call cb1 c t s = call cb2 c t s"
  shows "select_best_frames cv vf percentage cb1 s = select_best_frames cv vf percentage cb2 s"
  by (simp add: select_best_frames_def score_loop_call_cong[of cb1 cb2, OF h])

lemma align_and_stack_lucky_call_cong:
  assumes h: "\<And>c t s. call cb1 c t s = call cb2 c t s"
  shows "align_and_stack_lucky cv vf percentage meth cb1 s
       = align_and_stack_lucky cv vf percentage meth cb2 s"
  by (simp add: align_and_stack_lucky_def select_best_frames_call_cong[of cb1 cb2, OF h]
        lucky_align_loop_call_cong[of cb1 cb2, OF h] split: sum.splits list.splits)

lemma aligned_frames_of_call_cong:
  assumes h: "\<And>c t s. call cb1 c t s = call cb2 c t s"
  shows "aligned_frames_of cv vf cb1 first_frame thr s
       = aligned_frames_of cv vf cb2 first_frame thr s"
  by (simp add: aligned_frames_of_def Let_def h align_loop_call_cong[of cb1 cb2, OF h]
        split: sum.splits option.splits)

lemma stack_frames_call_cong:
  assumes h: "\<And>c t s. call cb1 c t s = call cb2 c t s"
  shows "stack_frames cv vf meth cb1 stretch align thr s
       = stack_frames cv vf meth cb2 stretch align thr s"
  by (simp add: stack_frames_def Let_def sum_loop_call_cong[of cb1 cb2, OF h]
        median_loop_call_cong[of cb1 cb2, OF h] aligned_frames_of_call_cong[of cb1 cb2, OF h]
        align_and_stack_lucky_call_cong[of cb1 cb2, OF h] split: sum.splits)

lemma call_with_reply: "call (Some (with_reply g f)) c t s = call (Some f) c t s"
  by (auto simp: call_def with_reply_def split: sum.splits)

text \<open>Each loop over a list that starts with frames that are read and processed without
  an exception and whose progress calls return: the loop goes on with the rest of the
  list, the values gathered so far and the state the callback has reached.\<close>

lemma sum_loop_prefix:
  assumes "\<forall>i\<in>set xs. vf_get_frame vf (int i) = Inr (F i)"
    and "run_callbacks cb (map (\<lambda>i. (i + 1, vf_frame_count vf)) xs) s = Inr s1"
  shows "sum_loop vf cb (xs @ ys) acc s =
     sum_loop vf cb ys (foldl (\<lambda>a frame. map2 (+) a (as_float frame)) acc (map F xs)) s1"
  using assms
  by (induction xs arbitrary: acc s) (auto split: sum.splits)

lemma median_loop_prefix:
  assumes "\<forall>i\<in>set xs. vf_get_frame vf (int i) = Inr (F i)"
    and "run_callbacks cb (map (\<lambda>i. (i + 1, vf_frame_count vf)) xs) s = Inr s1"
  shows "median_loop vf cb (xs @ ys) frames s =
     median_loop vf cb ys (frames @ map (\<lambda>i. as_float (F i)) xs) s1"
  using assms
  by (induction xs arbitrary: frames s) (auto split: sum.splits)

lemma align_loop_prefix:
  assumes "\<forall>i\<in>set xs. vf_get_frame vf (int i) = Inr (F i)"
    and "\<forall>i\<in>set xs. \<not> isl (align_and_check cv reference thr (F i))"
    and "run_callbacks cb (map (\<lambda>i. (i + 1, vf_frame_count vf)) xs) s = Inr s1"
  shows "align_loop cv vf cb reference thr (xs @ ys) aligned s =
     align_loop cv vf cb reference thr ys
       (aligned @ List.map_filter (\<lambda>i. accepted_frame cv reference thr (F i)) xs) s1"
  using assms
  by (induction xs arbitrary: aligned s)
     (auto simp: Let_def accepted_frame_def split: sum.splits option.splits)

lemma score_loop_prefix:
  assumes "\<forall>i\<in>set xs. vf_get_frame vf (int i) = Inr (F i)"
    and "\<forall>i\<in>set xs. calculate_sharpness cv (F i) \<noteq> None"
    and "run_callbacks cb (map (\<lambda>i. (i + 1, vf_frame_count vf)) xs) s = Inr s1"
  shows "score_loop cv vf cb (xs @ ys) scores s =
     score_loop cv vf cb ys
       (scores @ map (\<lambda>i. (i, the (calculate_sharpness cv (F i)))) xs) s1"
  using assms
  by (induction xs arbitrary: scores s) (auto split: sum.splits option.splits)

lemma load_loop_run:
  assumes "\<forall>x\<in>set xs. vf_get_frame vf (int (fst x)) = Inr (F (fst x))"
  shows "load_loop vf xs = Inr (map (\<lambda>x. (fst x, snd x, F (fst x))) xs)"
  using assms by (induction xs) (auto split: sum.splits)

lemma lucky_align_loop_run:
  "lucky_align_loop cv reference total_n cb i rest aligned s =
     (case run_callbacks cb (map (\<lambda>k. (k, total_n)) [i..<i + length rest]) s of
        Inl e \<Rightarrow> Inl e
      | Inr s' \<Rightarrow>
          Inr (aligned @ List.map_filter (\<lambda>x. align_frame_features cv reference (snd (snd x)))
                           rest, s'))"
proof (induction rest arbitrary: i aligned s)
  case Nil
  then show ?case by simp
next
  case (Cons x rest)
  obtain idx score frame where x: "x = (idx, score, frame)" by (cases x) auto
  have u: "[i..<i + length (x # rest)] = i # [Suc i..<Suc i + length rest]"
  proof -
    have "i < i + length (x # rest)" by simp
    from upt_conv_Cons[OF this] show ?thesis by simp
  qed
  have calls: "map (\<lambda>k. (k, total_n)) [i..<i + length (x # rest)]
      = (i, total_n) # map (\<lambda>k. (k, total_n)) [Suc i..<Suc i + length rest]"
    by (simp only: u list.map)
  show ?case
    apply (subst calls)
    apply (simp only: x lucky_align_loop.simps Let_def run_callbacks.simps)
    apply (auto simp: Cons.IH simp del: upt_Suc split: sum.splits option.splits)
    done
qed

text \<open>The paths of \<open>stack_frames\<close> on a file that is not AVI or MP4.\<close>

lemma native_calls:
  assumes "file_type vf \<notin> {''AVI'', ''MP4''}"
  shows "progress_calls vf = map (\<lambda>i. (i + 1, vf_frame_count vf)) [0..<vf_frame_count vf]"
  using assms by (simp add: progress_calls_def Let_def)

lemma frames_ok_iff:
  "frames_ok cv vf al thr F k \<longleftrightarrow> (\<forall>i<k. frame_step_ok cv vf al thr F i)"
  by (auto simp: frames_ok_def list_all_iff)

lemma frames_ok_first:
  assumes "frames_ok cv vf al thr F k" and "0 < k"
  shows "vf_get_frame vf 0 = Inr (F 0)"
proof -
  from assms have "frame_step_ok cv vf al thr F 0" by (simp add: frames_ok_iff)
  then show ?thesis by (simp add: frame_step_ok_def)
qed

lemma upt_split_at:
  assumes "k < n"
  shows "[0..<n] = [0..<k] @ k # [Suc k..<n]"
proof -
  have "[0..<n] = [0..<k] @ [k..<n]"
    using assms upt_add_eq_append[of 0 k "n - k"] by simp
  also have "[k..<n] = k # [Suc k..<n]" using assms by (rule upt_conv_Cons)
  finally show ?thesis .
qed

lemma upt_split_from_1:
  assumes "0 < k" "k < n"
  shows "[Suc 0..<n] = [Suc 0..<k] @ k # [Suc k..<n]"
proof -
  have "[Suc 0..<n] = [Suc 0..<k] @ [k..<n]"
    using assms upt_add_eq_append[of "Suc 0" k "n - k"] by simp
  also have "[k..<n] = k # [Suc k..<n]" using assms(2) by (rule upt_conv_Cons)
  finally show ?thesis .
qed

lemma unaligned_complete:
  assumes nat: "file_type vf \<notin> {''AVI'', ''MP4''}"
    and pos: "0 < vf_frame_count vf"
    and fo: "frames_ok cv vf False thr F (vf_frame_count vf)"
    and run: "run_callbacks cb (progress_calls vf) s = Inr s'"
  shows "stack_frames cv vf meth cb stretch False thr s =
     returning (combine_unaligned meth stretch (F 0) (map F [0..<vf_frame_count vf])) s'"
proof -
  have rd: "\<forall>i\<in>set [0..<vf_frame_count vf]. vf_get_frame vf (int i) = Inr (F i)"
    using fo by (simp add: frames_ok_iff frame_step_ok_def)
  have f0: "vf_get_frame vf 0 = Inr (F 0)" using rd pos by force
  have run': "run_callbacks cb (map (\<lambda>i. (i + 1, vf_frame_count vf)) [0..<vf_frame_count vf]) s
      = Inr s'"
    using run native_calls[OF nat] by simp
  have sl: "sum_loop vf cb [0..<vf_frame_count vf] acc s =
      Inr (foldl (\<lambda>a frame. map2 (+) a (as_float frame)) acc
             (map F [0..<vf_frame_count vf]), s')" for acc
    using sum_loop_prefix[OF rd run', of "[]" acc] by simp
  have ml: "median_loop vf cb [0..<vf_frame_count vf] [] s =
      Inr (map (\<lambda>i. as_float (F i)) [0..<vf_frame_count vf], s')"
    using median_loop_prefix[OF rd run', of "[]" "[]"] by simp
  show ?thesis
    using nat
    by (simp add: stack_frames_def Let_def f0 sl ml combine_unaligned_def accumulate_def
          comp_def)
qed

lemma unaligned_raise:
  assumes nat: "file_type vf \<notin> {''AVI'', ''MP4''}"
    and k: "k < vf_frame_count vf"
    and fo: "frames_ok cv vf False thr F (Suc k)"
    and run: "run_callbacks cb (map (\<lambda>i. (i + 1, vf_frame_count vf)) [0..<k]) s = Inr s1"
    and raise: "call cb (k + 1) (vf_frame_count vf) s1 = Inl e"
  shows "stack_frames cv vf meth cb stretch False thr s = Inl e"
proof -
  have rd: "\<forall>i\<in>set [0..<k]. vf_get_frame vf (int i) = Inr (F i)"
    using fo by (simp add: frames_ok_iff frame_step_ok_def)
  have fk: "vf_get_frame vf (int k) = Inr (F k)"
    using fo by (simp add: frames_ok_iff frame_step_ok_def)
  have f0: "vf_get_frame vf 0 = Inr (F 0)"
    using frames_ok_first[OF fo] by simp
  have sl: "sum_loop vf cb [0..<vf_frame_count vf] acc s = Inl e" for acc
    using raise by (simp add: upt_split_at[OF k] sum_loop_prefix[OF rd run] fk)
  have ml: "median_loop vf cb [0..<vf_frame_count vf] [] s = Inl e"
    using raise by (simp add: upt_split_at[OF k] median_loop_prefix[OF rd run] fk)
  show ?thesis
    using nat by (simp add: stack_frames_def Let_def f0 sl ml)
qed

lemma unaligned_fail:
  assumes nat: "file_type vf \<notin> {''AVI'', ''MP4''}"
    and k: "k < vf_frame_count vf"
    and fo: "frames_ok cv vf False thr F k"
    and run: "run_callbacks cb (map (\<lambda>i. (i + 1, vf_frame_count vf)) [0..<k]) s = Inr s1"
    and fail: "vf_get_frame vf (int k) = Inl x"
  shows "stack_frames cv vf meth cb stretch False thr s = Inl (SourceError x)"
proof (cases "k = 0")
  case True
  with fail have "vf_get_frame vf 0 = Inl x" by simp
  then show ?thesis using nat by (simp add: stack_frames_def Let_def)
next
  case False
  have rd: "\<forall>i\<in>set [0..<k]. vf_get_frame vf (int i) = Inr (F i)"
    using fo by (simp add: frames_ok_iff frame_step_ok_def)
  have f0: "vf_get_frame vf 0 = Inr (F 0)"
    using frames_ok_first[OF fo] False by simp
  have sl: "sum_loop vf cb [0..<vf_frame_count vf] acc s = Inl (SourceError x)" for acc
    by (simp add: upt_split_at[OF k] sum_loop_prefix[OF rd run] fail)
  have ml: "median_loop vf cb [0..<vf_frame_count vf] [] s = Inl (SourceError x)"
    by (simp add: upt_split_at[OF k] median_loop_prefix[OF rd run] fail)
  show ?thesis
    using nat by (simp add: stack_frames_def Let_def f0 sl ml)
qed

lemma aligned_frames_of_complete:
  assumes nat: "file_type vf \<notin> {''AVI'', ''MP4''}"
    and pos: "0 < vf_frame_count vf"
    and fo: "frames_ok cv vf True thr F (vf_frame_count vf)"
    and run: "run_callbacks cb (progress_calls vf) s = Inr s'"
  shows "aligned_frames_of cv vf cb (F 0) thr s =
     Inr (F 0 # List.map_filter (\<lambda>i. accepted_frame cv (F 0) thr (F i))
                  [1..<vf_frame_count vf], s')"
proof -
  have st: "\<forall>i<vf_frame_count vf. frame_step_ok cv vf True thr F i"
    using fo by (simp add: frames_ok_iff)
  have rd: "\<forall>i\<in>set [Suc 0..<vf_frame_count vf]. vf_get_frame vf (int i) = Inr (F i)"
    using st by (simp add: frame_step_ok_def)
  have ac: "\<forall>i\<in>set [Suc 0..<vf_frame_count vf]. \<not> isl (align_and_check cv (F 0) thr (F i))"
    using st nat by (auto simp: frame_step_ok_def)
  have q0: "calculate_quality_score cv (F 0) \<noteq> None"
    using st pos nat by (auto simp: frame_step_ok_def)
  have u: "[0..<vf_frame_count vf] = 0 # [Suc 0..<vf_frame_count vf]"
    using pos by (simp add: upt_conv_Cons)
  from run native_calls[OF nat] u obtain s0 where
    c1: "call cb (Suc 0) (vf_frame_count vf) s = Inr s0" and
    r1: "run_callbacks cb (map (\<lambda>i. (i + 1, vf_frame_count vf)) [Suc 0..<vf_frame_count vf])
           s0 = Inr s'"
    by (auto split: sum.splits)
  have al: "align_loop cv vf cb (F 0) thr [Suc 0..<vf_frame_count vf] [F 0] s0 =
      Inr ([F 0] @ List.map_filter (\<lambda>i. accepted_frame cv (F 0) thr (F i))
                     [Suc 0..<vf_frame_count vf], s')"
    using align_loop_prefix[OF rd ac r1, of "[]" "[F 0]"] by simp
  show ?thesis
    using q0 by (auto simp: aligned_frames_of_def Let_def c1 al)
qed

lemma aligned_complete:
  assumes nat: "file_type vf \<notin> {''AVI'', ''MP4''}"
    and pos: "0 < vf_frame_count vf"
    and fo: "frames_ok cv vf True thr F (vf_frame_count vf)"
    and run: "run_callbacks cb (progress_calls vf) s = Inr s'"
  shows "stack_frames cv vf meth cb stretch True thr s =
     returning (combine_aligned meth stretch (F 0)
                  (F 0 # List.map_filter (\<lambda>i. accepted_frame cv (F 0) thr (F i))
                           [1..<vf_frame_count vf])) s'"
proof -
  have f0: "vf_get_frame vf 0 = Inr (F 0)"
    using frames_ok_first[OF fo pos] by simp
  show ?thesis
    using nat
    by (simp add: stack_frames_def Let_def f0 aligned_frames_of_complete[OF nat pos fo run])
qed

lemma aligned_raise:
  assumes nat: "file_type vf \<notin> {''AVI'', ''MP4''}"
    and k: "k < vf_frame_count vf"
    and fo: "frames_ok cv vf True thr F (Suc k)"
    and run: "run_callbacks cb (map (\<lambda>i. (i + 1, vf_frame_count vf)) [0..<k]) s = Inr s1"
    and raise: "call cb (k + 1) (vf_frame_count vf) s1 = Inl e"
  shows "stack_frames cv vf meth cb stretch True thr s = Inl e"
proof -
  have st: "\<forall>i<Suc k. frame_step_ok cv vf True thr F i"
    using fo by (simp add: frames_ok_iff)
  have f0: "vf_get_frame vf 0 = Inr (F 0)" using frames_ok_first[OF fo] by simp
  have q0: "calculate_quality_score cv (F 0) \<noteq> None"
    using st nat by (auto simp: frame_step_ok_def)
  have "aligned_frames_of cv vf cb (F 0) thr s = Inl e"
  proof (cases "k = 0")
    case True
    with run raise have "call cb (Suc 0) (vf_frame_count vf) s = Inl e" by simp
    then show ?thesis using q0 by (auto simp: aligned_frames_of_def Let_def)
  next
    case False
    then have kp: "0 < k" by simp
    have rd: "\<forall>i\<in>set [Suc 0..<k]. vf_get_frame vf (int i) = Inr (F i)"
      using st by (simp add: frame_step_ok_def)
    have ac: "\<forall>i\<in>set [Suc 0..<k]. \<not> isl (align_and_check cv (F 0) thr (F i))"
      using st nat by (auto simp: frame_step_ok_def)
    have fk: "vf_get_frame vf (int k) = Inr (F k)" using st by (simp add: frame_step_ok_def)
    have ak: "\<not> isl (align_and_check cv (F 0) thr (F k))"
      using st nat kp by (auto simp: frame_step_ok_def)
    have u: "[0..<k] = 0 # [Suc 0..<k]" using kp by (simp add: upt_conv_Cons)
    from run u obtain s0 where
      c1: "call cb (Suc 0) (vf_frame_count vf) s = Inr s0" and
      r1: "run_callbacks cb (map (\<lambda>i. (i + 1, vf_frame_count vf)) [Suc 0..<k]) s0 = Inr s1"
      by (auto split: sum.splits)
    have al: "align_loop cv vf cb (F 0) thr [Suc 0..<vf_frame_count vf] [F 0] s0 = Inl e"
      using raise ak
      by (cases "align_and_check cv (F 0) thr (F k)")
         (simp_all add: upt_split_from_1[OF kp k] align_loop_prefix[OF rd ac r1] fk Let_def)
    show ?thesis
      using q0 by (auto simp: aligned_frames_of_def Let_def c1 al)
  qed
  then show ?thesis
    using nat by (simp add: stack_frames_def Let_def f0)
qed

lemma aligned_fail:
  assumes nat: "file_type vf \<notin> {''AVI'', ''MP4''}"
    and k: "k < vf_frame_count vf"
    and fo: "frames_ok cv vf True thr F k"
    and run: "run_callbacks cb (map (\<lambda>i. (i + 1, vf_frame_count vf)) [0..<k]) s = Inr s1"
    and fail: "vf_get_frame vf (int k) = Inl x"
  shows "stack_frames cv vf meth cb stretch True thr s = Inl (SourceError x)"
proof (cases "k = 0")
  case True
  with fail have "vf_get_frame vf 0 = Inl x" by simp
  then show ?thesis using nat by (simp add: stack_frames_def Let_def)
next
  case False
  then have kp: "0 < k" by simp
  have st: "\<forall>i<k. frame_step_ok cv vf True thr F i"
    using fo by (simp add: frames_ok_iff)
  have f0: "vf_get_frame vf 0 = Inr (F 0)" using frames_ok_first[OF fo kp] by simp
  have q0: "calculate_quality_score cv (F 0) \<noteq> None"
    using st nat kp by (auto simp: frame_step_ok_def)
  have rd: "\<forall>i\<in>set [Suc 0..<k]. vf_get_frame vf (int i) = Inr (F i)"
    using st by (simp add: frame_step_ok_def)
  have ac: "\<forall>i\<in>set [Suc 0..<k]. \<not> isl (align_and_check cv (F 0) thr (F i))"
    using st nat by (auto simp: frame_step_ok_def)
  have u: "[0..<k] = 0 # [Suc 0..<k]" using kp by (simp add: upt_conv_Cons)
  from run u obtain s0 where
    c1: "call cb (Suc 0) (vf_frame_count vf) s = Inr s0" and
    r1: "run_callbacks cb (map (\<lambda>i. (i + 1, vf_frame_count vf)) [Suc 0..<k]) s0 = Inr s1"
    by (auto split: sum.splits)
  have al: "align_loop cv vf cb (F 0) thr [Suc 0..<vf_frame_count vf] [F 0] s0
      = Inl (SourceError x)"
    by (simp add: upt_split_from_1[OF kp k] align_loop_prefix[OF rd ac r1] fail)
  have "aligned_frames_of cv vf cb (F 0) thr s = Inl (SourceError x)"
    using q0 by (auto simp: aligned_frames_of_def Let_def c1 al)
  then show ?thesis
    using nat by (simp add: stack_frames_def Let_def f0)
qed

text \<open>The lucky-imaging path.\<close>

lemma lucky_calls:
  assumes "file_type vf \<in> {''AVI'', ''MP4''}"
  shows "progress_calls vf =
     map (\<lambda>i. (i + 1, vf_frame_count vf)) [0..<vf_frame_count vf]
     @ map (\<lambda>k. (k, kept_count vf)) [1..<Suc (kept_count vf - 1)]"
  using assms by (simp add: progress_calls_def kept_count_def Let_def)

lemma select_best_frames_scored:
  fixes cb :: "('s, 'r) callback option"
  assumes lucky: "file_type vf \<in> {''AVI'', ''MP4''}"
    and pos: "0 < vf_frame_count vf"
    and fo: "frames_ok cv vf al thr F (vf_frame_count vf)"
    and run: "run_callbacks cb (map (\<lambda>i. (i + 1, vf_frame_count vf)) [0..<vf_frame_count vf]) s
                = Inr sn"
  shows "\<exists>best. select_best_frames cv vf 10 cb s
                 = Inr (map (\<lambda>x. (fst x, snd x, F (fst x))) best, sn) \<and>
               length best = kept_count vf \<and> (\<forall>x\<in>set best. fst x < vf_frame_count vf)"
proof -
  define n where "n = vf_frame_count vf"
  define scores where "scores = map (\<lambda>i. (i, the (calculate_sharpness cv (F i)))) [0..<n]"
  define best where "best = sort_key fst (take (max 1 (nat \<lfloor>of_nat n * (10::rat) / 100\<rfloor>))
      (sort_key (\<lambda>x. - snd x) scores))"
  have st: "\<forall>i<n. frame_step_ok cv vf al thr F i"
    using fo by (simp add: frames_ok_iff n_def)
  have rd: "\<forall>i\<in>set [0..<n]. vf_get_frame vf (int i) = Inr (F i)"
    using st by (simp add: frame_step_ok_def)
  have sh: "\<forall>i\<in>set [0..<n]. calculate_sharpness cv (F i) \<noteq> None"
    using st lucky by (auto simp: frame_step_ok_def)
  have sc: "score_loop cv vf cb [0..<n] [] s = Inr (scores, sn)"
    using score_loop_prefix[OF rd[unfolded n_def] sh[unfolded n_def] run, of "[]" "[]"]
    by (simp add: scores_def n_def)
  have len: "length best = kept_count vf"
    by (simp add: best_def scores_def kept_count_def n_def)
  then have ne: "best \<noteq> []" using pos by (auto simp: kept_count_def)
  have "set best \<subseteq> set scores"
    unfolding best_def by (auto dest: in_set_takeD)
  then have inr: "\<forall>x\<in>set best. fst x < n" by (auto simp: scores_def)
  then have ld: "\<forall>x\<in>set best. vf_get_frame vf (int (fst x)) = Inr (F (fst x))"
    using rd by simp
  have "select_best_frames cv vf 10 cb s =
      (if best = [] then Inl PyIndexError
       else (case load_loop vf best of
               Inl e \<Rightarrow> Inl e
             | Inr result \<Rightarrow> Inr (result, sn)))"
    unfolding select_best_frames_def Let_def sc[unfolded n_def] best_def n_def by simp
  then have sel: "select_best_frames cv vf 10 cb s
      = Inr (map (\<lambda>x. (fst x, snd x, F (fst x))) best, sn)"
    using ne by (simp add: load_loop_run[OF ld])
  from sel len inr show ?thesis by (auto simp: n_def)
qed

lemma lucky_after_scoring:
  fixes cb :: "('s, 'r) callback option"
  assumes lucky: "file_type vf \<in> {''AVI'', ''MP4''}"
    and pos: "0 < vf_frame_count vf"
    and fo: "frames_ok cv vf al thr F (vf_frame_count vf)"
    and run: "run_callbacks cb (map (\<lambda>i. (i + 1, vf_frame_count vf)) [0..<vf_frame_count vf]) s
                = Inr sn"
  shows "\<exists>i aligned. i < vf_frame_count vf \<and> 1 + length aligned \<le> kept_count vf \<and>
     stack_frames cv vf meth cb stretch al thr s =
       (case run_callbacks cb (map (\<lambda>k. (k, kept_count vf)) [1..<Suc (kept_count vf - 1)]) sn of
          Inl e \<Rightarrow> Inl e
        | Inr s' \<Rightarrow> returning (lucky_combine meth (F i # aligned)) s')"
proof -
  from select_best_frames_scored[OF lucky pos fo run]
  obtain best where
    sel: "select_best_frames cv vf 10 cb s
            = Inr (map (\<lambda>x. (fst x, snd x, F (fst x))) best, sn)" and
    len: "length best = kept_count vf" and
    inr: "\<forall>x\<in>set best. fst x < vf_frame_count vf"
    by (elim exE conjE)
  have "0 < kept_count vf" using pos by (simp add: kept_count_def)
  with len obtain b bs where best: "best = b # bs" by (cases best) auto
  have bn: "fst b < vf_frame_count vf" using inr best by simp
  have lbs: "length bs = kept_count vf - 1" using len best by simp
  let ?rest = "map (\<lambda>x. (fst x, snd x, F (fst x))) bs"
  let ?al = "List.map_filter (\<lambda>x. align_frame_features cv (F (fst b)) (snd (snd x))) ?rest"
  have la: "length ?al \<le> length bs"
    by (simp add: List.map_filter_def)
  have main: "stack_frames cv vf meth cb stretch al thr s =
       (case run_callbacks cb (map (\<lambda>k. (k, kept_count vf)) [1..<Suc (kept_count vf - 1)]) sn of
          Inl e \<Rightarrow> Inl e
        | Inr s' \<Rightarrow> returning (lucky_combine meth (F (fst b) # ?al)) s')"
    using lucky
    apply (simp only: stack_frames_def Let_def if_True align_and_stack_lucky_def sel)
    apply (auto simp: best lucky_align_loop_run len[symmetric] returning_def
        simp del: upt_Suc split: sum.splits)
    done
  have "1 + length ?al \<le> kept_count vf" using la lbs \<open>0 < kept_count vf\<close> by simp
  with bn main show ?thesis by blast
qed

lemma lucky_raise_scoring:
  assumes lucky: "file_type vf \<in> {''AVI'', ''MP4''}"
    and k: "k < vf_frame_count vf"
    and fo: "frames_ok cv vf al thr F (Suc k)"
    and run: "run_callbacks cb (map (\<lambda>i. (i + 1, vf_frame_count vf)) [0..<k]) s = Inr s1"
    and raise: "call cb (k + 1) (vf_frame_count vf) s1 = Inl e"
  shows "stack_frames cv vf meth cb stretch al thr s = Inl e"
proof -
  have st: "\<forall>i<Suc k. frame_step_ok cv vf al thr F i"
    using fo by (simp add: frames_ok_iff)
  have rd: "\<forall>i\<in>set [0..<k]. vf_get_frame vf (int i) = Inr (F i)"
    using st by (simp add: frame_step_ok_def)
  have sh: "\<forall>i\<in>set [0..<k]. calculate_sharpness cv (F i) \<noteq> None"
    using st lucky by (auto simp: frame_step_ok_def)
  have fk: "vf_get_frame vf (int k) = Inr (F k)" using st by (simp add: frame_step_ok_def)
  have sk: "calculate_sharpness cv (F k) \<noteq> None"
    using st lucky by (auto simp: frame_step_ok_def)
  have sc: "score_loop cv vf cb [0..<vf_frame_count vf] [] s = Inl e"
    using raise sk
    by (auto simp: upt_split_at[OF k] score_loop_prefix[OF rd sh run] fk)
  show ?thesis
    using lucky
    by (simp add: stack_frames_def Let_def align_and_stack_lucky_def select_best_frames_def sc)
qed

lemma lucky_fail:
  assumes lucky: "file_type vf \<in> {''AVI'', ''MP4''}"
    and k: "k < vf_frame_count vf"
    and fo: "frames_ok cv vf al thr F k"
    and run: "run_callbacks cb (map (\<lambda>i. (i + 1, vf_frame_count vf)) [0..<k]) s = Inr s1"
    and fail: "vf_get_frame vf (int k) = Inl x"
  shows "stack_frames cv vf meth cb stretch al thr s = Inl (SourceError x)"
proof -
  have st: "\<forall>i<k. frame_step_ok cv vf al thr F i"
    using fo by (simp add: frames_ok_iff)
  have rd: "\<forall>i\<in>set [0..<k]. vf_get_frame vf (int i) = Inr (F i)"
    using st by (simp add: frame_step_ok_def)
  have sh: "\<forall>i\<in>set [0..<k]. calculate_sharpness cv (F i) \<noteq> None"
    using st lucky by (auto simp: frame_step_ok_def)
  have sc: "score_loop cv vf cb [0..<vf_frame_count vf] [] s = Inl (SourceError x)"
    by (simp add: upt_split_at[OF k] score_loop_prefix[OF rd sh run] fail)
  show ?thesis
    using lucky
    by (simp add: stack_frames_def Let_def align_and_stack_lucky_def select_best_frames_def sc)
qed

text \<open>The last step of a method raises only on an image without samples.\<close>

lemma auto_stretch_impl_error: "auto_stretch_impl xs dt = Inl e \<Longrightarrow> e = PyIndexError"
  by (auto simp: auto_stretch_impl_def percentile_def Let_def split: sum.splits if_splits)

lemma combine_aligned_error: "combine_aligned meth stretch first fs = Inl e \<Longrightarrow> e = PyIndexError"
  by (auto simp: combine_aligned_def finish_median_def finish_sum_def finish_average_def Let_def
        split: sum.splits if_splits dest: auto_stretch_impl_error)

lemma combine_unaligned_error:
  "combine_unaligned meth stretch first fs = Inl e \<Longrightarrow> e = PyIndexError"
  by (auto simp: combine_unaligned_def finish_median_def finish_sum_def finish_average_def Let_def
        split: sum.splits if_splits dest: auto_stretch_impl_error)

lemma lucky_combine_error: "lucky_combine meth fs = Inl e \<Longrightarrow> e = PyValueError"
  by (auto simp: lucky_combine_def Let_def split: if_splits)

lemma returning_cases:
  assumes "\<And>e. r = Inl e \<Longrightarrow> e = PyIndexError \<or> e = PyValueError"
  shows "(\<exists>img. returning r s = Inr (img, s)) \<or> returning r s = Inl PyIndexError
           \<or> returning r s = Inl PyValueError"
  using assms by (cases r) (auto simp: returning_def)

lemma lucky_raise_aligning:
  fixes cb :: "('s, 'r) callback option"
  assumes lucky: "file_type vf \<in> {''AVI'', ''MP4''}"
    and fo: "frames_ok cv vf al thr F (vf_frame_count vf)"
    and kn: "vf_frame_count vf \<le> k"
    and k: "k < length (progress_calls vf)"
    and run: "run_callbacks cb (take k (progress_calls vf)) s = Inr s1"
    and raise: "call cb (fst (progress_calls vf ! k)) (snd (progress_calls vf ! k)) s1 = Inl e"
  shows "stack_frames cv vf meth cb stretch al thr s = Inl e"
proof -
  let ?A = "map (\<lambda>i. (i + 1, vf_frame_count vf)) [0..<vf_frame_count vf]"
  let ?B = "map (\<lambda>k. (k, kept_count vf)) [1..<Suc (kept_count vf - 1)]"
  have C: "progress_calls vf = ?A @ ?B" by (rule lucky_calls[OF lucky])
  have lA: "length ?A = vf_frame_count vf" by simp
  have pos: "0 < vf_frame_count vf"
  proof (rule ccontr)
    assume "\<not> 0 < vf_frame_count vf"
    then have "length (progress_calls vf) = 0" by (simp add: C kept_count_def)
    with k show False by simp
  qed
  define j where "j = k - vf_frame_count vf"
  have tk: "take k (progress_calls vf) = ?A @ take j ?B"
    using kn unfolding C j_def by (simp del: upt_Suc)
  have nk: "progress_calls vf ! k = ?B ! j"
    using kn unfolding C j_def by (simp add: nth_append del: upt_Suc)
  have jl: "j < length ?B" using k kn unfolding C j_def by (simp del: upt_Suc)
  from run[unfolded tk run_callbacks_append] obtain sn where
    rA: "run_callbacks cb ?A s = Inr sn" and
    rB: "run_callbacks cb (take j ?B) sn = Inr s1"
    by (auto split: sum.splits)
  have "run_callbacks cb ?B sn = Inl e"
    using run_callbacks_raise_at[OF jl rB] raise nk by simp
  with lucky_after_scoring[OF lucky pos fo rA, of meth stretch]
  show ?thesis by auto
qed

lemma lucky_complete:
  fixes cb :: "('s, 'r) callback option"
  assumes lucky: "file_type vf \<in> {''AVI'', ''MP4''}"
    and pos: "0 < vf_frame_count vf"
    and fo: "frames_ok cv vf al thr F (vf_frame_count vf)"
    and run: "run_callbacks cb (progress_calls vf) s = Inr s'"
  shows "\<exists>i aligned. i < vf_frame_count vf \<and> 1 + length aligned \<le> kept_count vf \<and>
     stack_frames cv vf meth cb stretch al thr s
       = returning (lucky_combine meth (F i # aligned)) s'"
proof -
  let ?A = "map (\<lambda>i. (i + 1, vf_frame_count vf)) [0..<vf_frame_count vf]"
  let ?B = "map (\<lambda>k. (k, kept_count vf)) [1..<Suc (kept_count vf - 1)]"
  from run[unfolded lucky_calls[OF lucky] run_callbacks_append] obtain sn where
    rA: "run_callbacks cb ?A s = Inr sn" and
    rB: "run_callbacks cb ?B sn = Inr s'"
    by (auto split: sum.splits)
  from lucky_after_scoring[OF lucky pos fo rA, of meth stretch] rB
  show ?thesis by auto
qed

lemma native_take_calls:
  assumes "file_type vf \<notin> {''AVI'', ''MP4''}" and "k < vf_frame_count vf"
  shows "take k (progress_calls vf) = map (\<lambda>i. (i + 1, vf_frame_count vf)) [0..<k]"
    and "progress_calls vf ! k = (k + 1, vf_frame_count vf)"
  using assms by (simp_all add: native_calls take_map)

lemma lucky_take_calls:
  assumes "file_type vf \<in> {''AVI'', ''MP4''}" and "k < vf_frame_count vf"
  shows "take k (progress_calls vf) = map (\<lambda>i. (i + 1, vf_frame_count vf)) [0..<k]"
    and "progress_calls vf ! k = (k + 1, vf_frame_count vf)"
  using assms by (simp_all add: lucky_calls take_map nth_append del: upt_Suc)

lemma native_calls_length:
  assumes "file_type vf \<notin> {''AVI'', ''MP4''}"
  shows "length (progress_calls vf) = vf_frame_count vf"
  using assms by (simp add: native_calls)

text \<open>
  Claim C2, as amended.  In every stacking run the progress callback is called after each
  frame that has been read and processed, in order and before the next frame is read (for
  an AVI or MP4 file again after each kept frame has been aligned); \<open>progress_calls\<close>
  lists the calls.  The value the callback returns is ignored: no reply cancels the run.
  The only way the callback stops the operation is to raise; then the operation ends at
  that call, returns no image, and the exception that leaves it is the callback's own,
  unchanged: the stacker has no cancellation condition of its own.

  The four parts of the statement: when every frame is read and processed and every
  call returns, the run ends with an image and the state the callback reached at its
  last call (or with the error of combining images without samples); when the call of
  index \<open>k\<close> is the first that raises, and the frames before that call were read and
  processed, the run ends with the exception raised, whatever the later frames are; when
  frame \<open>k\<close> is the first that cannot be read and the calls before it return, the run ends
  with the read error, whatever the callback would do next; and replacing the replies of
  a callback by other values does not change the run.
\<close>

theorem stack_frames_progress_callback:
  fixes cb :: "('s, 'r) callback option" and f :: "('s, 'r) callback" and g :: "'r \<Rightarrow> 'q"
  shows
  "(frames_ok cv vf align thr F (vf_frame_count vf) \<and> 0 < vf_frame_count vf \<and>
      run_callbacks cb (progress_calls vf) s = Inr s'
    \<longrightarrow> ((\<exists>img. stack_frames cv vf meth cb stretch align thr s = Inr (img, s'))
         \<or> stack_frames cv vf meth cb stretch align thr s = Inl PyIndexError
         \<or> stack_frames cv vf meth cb stretch align thr s = Inl PyValueError)) \<and>
   (k < length (progress_calls vf) \<and>
      frames_ok cv vf align thr F (min (Suc k) (vf_frame_count vf)) \<and>
      run_callbacks cb (take k (progress_calls vf)) s = Inr s1 \<and>
      call cb (fst (progress_calls vf ! k)) (snd (progress_calls vf ! k)) s1 = Inl e
    \<longrightarrow> stack_frames cv vf meth cb stretch align thr s = Inl e) \<and>
   (k < vf_frame_count vf \<and> frames_ok cv vf align thr F k \<and>
      run_callbacks cb (take k (progress_calls vf)) s = Inr s1 \<and>
      vf_get_frame vf (int k) = Inl x
    \<longrightarrow> stack_frames cv vf meth cb stretch align thr s = Inl (SourceError x)) \<and>
   stack_frames cv vf meth (Some (with_reply g f)) stretch align thr s
     = stack_frames cv vf meth (Some f) stretch align thr s"
proof -
  let ?n = "vf_frame_count vf"
  let ?C = "progress_calls vf"
  let ?run = "stack_frames cv vf meth cb stretch align thr s"
  have c1: "(\<exists>img. ?run = Inr (img, s')) \<or> ?run = Inl PyIndexError \<or> ?run = Inl PyValueError"
    if fo: "frames_ok cv vf align thr F ?n" and pos: "0 < ?n"
      and run: "run_callbacks cb ?C s = Inr s'"
  proof (cases "file_type vf \<in> {''AVI'', ''MP4''}")
    case True
    from lucky_complete[OF True pos fo run, of meth stretch]
    obtain i aligned where
      eq: "?run = returning (lucky_combine meth (F i # aligned)) s'"
      by (elim exE conjE)
    show ?thesis
      unfolding eq by (rule returning_cases) (auto dest: lucky_combine_error)
  next
    case False
    show ?thesis
    proof (cases align)
      case True
      have fo': "frames_ok cv vf True thr F ?n" using fo True by simp
      show ?thesis
        using aligned_complete[OF False pos fo' run, of meth stretch]
          returning_cases[of "combine_aligned meth stretch (F 0)
             (F 0 # List.map_filter (\<lambda>i. accepted_frame cv (F 0) thr (F i)) [1..<?n])" s']
        by (auto simp: True dest: combine_aligned_error)
    next
      case no: False
      have fo': "frames_ok cv vf False thr F ?n" using fo no by simp
      show ?thesis
        using unaligned_complete[OF False pos fo' run, of meth stretch]
          returning_cases[of "combine_unaligned meth stretch (F 0) (map F [0..<?n])" s']
        by (auto simp: no dest: combine_unaligned_error)
    qed
  qed
  have c2: "?run = Inl e"
    if k: "k < length ?C" and fo: "frames_ok cv vf align thr F (min (Suc k) ?n)"
      and run: "run_callbacks cb (take k ?C) s = Inr s1"
      and raise: "call cb (fst (?C ! k)) (snd (?C ! k)) s1 = Inl e"
  proof (cases "file_type vf \<in> {''AVI'', ''MP4''}")
    case True
    show ?thesis
    proof (cases "k < ?n")
      case kn: True
      then have m: "min (Suc k) ?n = Suc k" by simp
      show ?thesis
        using lucky_raise_scoring[OF True kn fo[unfolded m]
            run[unfolded lucky_take_calls(1)[OF True kn]], of e meth stretch]
          raise[unfolded lucky_take_calls(2)[OF True kn]]
        by simp
    next
      case False
      then have kn: "?n \<le> k" by simp
      then have m: "min (Suc k) ?n = ?n" by simp
      show ?thesis
        by (rule lucky_raise_aligning[OF True fo[unfolded m] kn k run raise])
    qed
  next
    case False
    from k native_calls_length[OF False] have kn: "k < ?n" by simp
    then have m: "min (Suc k) ?n = Suc k" by simp
    have run': "run_callbacks cb (map (\<lambda>i. (i + 1, ?n)) [0..<k]) s = Inr s1"
      using run[unfolded native_take_calls(1)[OF False kn]] .
    have raise': "call cb (k + 1) ?n s1 = Inl e"
      using raise[unfolded native_take_calls(2)[OF False kn]] by simp
    show ?thesis
    proof (cases align)
      case True
      have fo': "frames_ok cv vf True thr F (Suc k)" using fo m True by simp
      show ?thesis
        using aligned_raise[OF False kn fo' run' raise', of meth stretch]
        by (simp add: True)
    next
      case no: False
      have fo': "frames_ok cv vf False thr F (Suc k)" using fo m no by simp
      show ?thesis
        using unaligned_raise[OF False kn fo' run' raise', of meth stretch]
        by (simp add: no)
    qed
  qed
  have c3: "?run = Inl (SourceError x)"
    if kn: "k < ?n" and fo: "frames_ok cv vf align thr F k"
      and run: "run_callbacks cb (take k ?C) s = Inr s1"
      and fail: "vf_get_frame vf (int k) = Inl x"
  proof (cases "file_type vf \<in> {''AVI'', ''MP4''}")
    case True
    show ?thesis
      by (rule lucky_fail[OF True kn fo run[unfolded lucky_take_calls(1)[OF True kn]] fail])
  next
    case False
    have run': "run_callbacks cb (map (\<lambda>i. (i + 1, ?n)) [0..<k]) s = Inr s1"
      using run[unfolded native_take_calls(1)[OF False kn]] .
    show ?thesis
    proof (cases align)
      case True
      have fo': "frames_ok cv vf True thr F k" using fo True by simp
      show ?thesis
        using aligned_fail[OF False kn fo' run' fail, of meth stretch]
        by (simp add: True)
    next
      case no: False
      have fo': "frames_ok cv vf False thr F k" using fo no by simp
      show ?thesis
        using unaligned_fail[OF False kn fo' run' fail, of meth stretch]
        by (simp add: no)
    qed
  qed
  have c4: "stack_frames cv vf meth (Some (with_reply g f)) stretch align thr s
     = stack_frames cv vf meth (Some f) stretch align thr s"
    by (rule stack_frames_call_cong) (rule call_with_reply)
  from c1 c2 c3 c4 show ?thesis by (intro conjI impI) (elim conjE, assumption+)+
qed

lemma ex2_ok:
  "frames_ok (ex_cv True True 0 0) (ex2_file ''SER'') True 0 ex2_frames
     (vf_frame_count (ex2_file ''SER''))"
  by code_simp

lemma ex2_positive: "0 < vf_frame_count (ex2_file ft)"
  by (simp add: ex2_file_def)

lemma ex2_completed_calls:
  "run_callbacks (Some (cancel_at 0)) (progress_calls (ex2_file ''SER'')) 0 = Inr 2"
  by code_simp

lemma ex2_completed_stack:
  "stack_frames (ex_cv True True 0 0) (ex2_file ''SER'') ''average'' (Some (cancel_at 0))
      True True 0 0 = Inr (ex_img, 2)"
  by code_simp

lemma ex2_bad_index: "0 < length (progress_calls ex2_bad_file)"
  by code_simp

lemma ex2_bad_first_ok:
  "frames_ok (ex_cv True True 0 0) ex2_bad_file True 0 ex2_frames
     (min (Suc 0) (vf_frame_count ex2_bad_file))"
  by code_simp

lemma ex2_bad_no_calls:
  "run_callbacks (Some (cancel_at 1)) (take 0 (progress_calls ex2_bad_file)) 0 = Inr 0"
  by code_simp

lemma ex2_bad_first_call:
  "call (Some (cancel_at 1)) (fst (progress_calls ex2_bad_file ! 0))
      (snd (progress_calls ex2_bad_file ! 0)) 0
     = Inl (PyException ''Stacking cancelled by user'')"
  by code_simp

lemma ex2_bad_count: "1 < vf_frame_count ex2_bad_file"
  by code_simp

lemma ex2_bad_ok_before:
  "frames_ok (ex_cv True True 0 0) ex2_bad_file True 0 ex2_frames 1"
  by code_simp

lemma ex2_bad_one_call:
  "run_callbacks (Some (cancel_at 2)) (take 1 (progress_calls ex2_bad_file)) 0 = Inr 1"
  by code_simp

lemma ex2_bad_read: "vf_get_frame ex2_bad_file (int 1) = Inl (SERFailure SERIOError)"
  by code_simp

theorem stack_frames_progress_callback_witness:
  "frames_ok (ex_cv True True 0 0) (ex2_file ''SER'') True 0 ex2_frames
     (vf_frame_count (ex2_file ''SER'')) \<and>
   0 < vf_frame_count (ex2_file ''SER'') \<and>
   run_callbacks (Some (cancel_at 0)) (progress_calls (ex2_file ''SER'')) 0 = Inr 2 \<and>
   stack_frames (ex_cv True True 0 0) (ex2_file ''SER'') ''average'' (Some (cancel_at 0))
      True True 0 0 = Inr (ex_img, 2) \<and>
   0 < length (progress_calls ex2_bad_file) \<and>
   frames_ok (ex_cv True True 0 0) ex2_bad_file True 0 ex2_frames
     (min (Suc 0) (vf_frame_count ex2_bad_file)) \<and>
   run_callbacks (Some (cancel_at 1)) (take 0 (progress_calls ex2_bad_file)) 0 = Inr 0 \<and>
   call (Some (cancel_at 1)) (fst (progress_calls ex2_bad_file ! 0))
      (snd (progress_calls ex2_bad_file ! 0)) 0
     = Inl (PyException ''Stacking cancelled by user'') \<and>
   stack_frames (ex_cv True True 0 0) ex2_bad_file ''average'' (Some (cancel_at 1))
      True True 0 0 = Inl (PyException ''Stacking cancelled by user'') \<and>
   1 < vf_frame_count ex2_bad_file \<and>
   frames_ok (ex_cv True True 0 0) ex2_bad_file True 0 ex2_frames 1 \<and>
   run_callbacks (Some (cancel_at 2)) (take 1 (progress_calls ex2_bad_file)) 0 = Inr 1 \<and>
   vf_get_frame ex2_bad_file (int 1) = Inl (SERFailure SERIOError) \<and>
   stack_frames (ex_cv True True 0 0) ex2_bad_file ''average'' (Some (cancel_at 2))
      True True 0 0 = Inl (SourceError (SERFailure SERIOError))"
proof -
  have done_or_error:
    "(\<exists>img. stack_frames (ex_cv True True 0 0) (ex2_file ''SER'') ''average''
               (Some (cancel_at 0)) True True 0 0 = Inr (img, 2))
     \<or> stack_frames (ex_cv True True 0 0) (ex2_file ''SER'') ''average''
               (Some (cancel_at 0)) True True 0 0 = Inl PyIndexError
     \<or> stack_frames (ex_cv True True 0 0) (ex2_file ''SER'') ''average''
               (Some (cancel_at 0)) True True 0 0 = Inl PyValueError"
    by (rule stack_frames_progress_callback
          [where cb = "Some (cancel_at 0)" and meth = "''average''" and stretch = True,
           THEN conjunct1, THEN mp, OF conjI[OF ex2_ok conjI[OF ex2_positive
             ex2_completed_calls]]])
  have raised:
    "stack_frames (ex_cv True True 0 0) ex2_bad_file ''average'' (Some (cancel_at 1))
        True True 0 0 = Inl (PyException ''Stacking cancelled by user'')"
    by (rule stack_frames_progress_callback
          [where cb = "Some (cancel_at 1)" and meth = "''average''" and stretch = True,
           THEN conjunct2, THEN conjunct1, THEN mp,
           OF conjI[OF ex2_bad_index conjI[OF ex2_bad_first_ok conjI[OF ex2_bad_no_calls
             ex2_bad_first_call]]]])
  have failed:
    "stack_frames (ex_cv True True 0 0) ex2_bad_file ''average'' (Some (cancel_at 2))
        True True 0 0 = Inl (SourceError (SERFailure SERIOError))"
    by (rule stack_frames_progress_callback
          [where cb = "Some (cancel_at 2)" and meth = "''average''" and stretch = True,
           THEN conjunct2, THEN conjunct2, THEN conjunct1, THEN mp,
           OF conjI[OF ex2_bad_count conjI[OF ex2_bad_ok_before conjI[OF ex2_bad_one_call
             ex2_bad_read]]]])
  from done_or_error ex2_completed_stack raised failed
    ex2_ok ex2_positive[of "''SER''"] ex2_completed_calls
    ex2_bad_index ex2_bad_first_ok ex2_bad_no_calls ex2_bad_first_call
    ex2_bad_count ex2_bad_ok_before ex2_bad_one_call ex2_bad_read
  show ?thesis by (intro conjI)
qed

text \<open>
  The claim as first stated fails.  A callback that answers \<open>Cancel\<close> at every call does
  not stop the operation, which returns its composite.  And a cancellation is not a
  condition of its own: a callback that raises the parser's I/O error ends the operation
  exactly as an unreadable frame does.
\<close>

theorem stack_frames_cancel_reply_ignored_counterexample:
  "always_cancel 1 2 0 = Inr (Cancel, 1) \<and> always_cancel 2 2 1 = Inr (Cancel, 2) \<and>
   stack_frames (ex_cv True True 0 0) (ex2_file ''SER'') ''average'' (Some always_cancel)
      True True 0 0 = Inr (ex_img, 2) \<and>
   stack_frames (ex_cv True True 0 0) (ex2_file ''SER'') ''average'' (Some raise_io_error)
      True True 0 0
     = stack_frames (ex_cv True True 0 0) ex2_bad_file ''average''
         (None :: (nat, unit) callback option) True True 0 0"
  by code_simp

lemma length_map_filter_le: "length (List.map_filter f xs) \<le> length xs"
  by (simp add: List.map_filter_def)


lemma ex2_native: "file_type (ex2_file ''SER'') \<notin> {''AVI'', ''MP4''}"
  by (simp add: ex2_file_def)

lemma ex2_ok_1000:
  "frames_ok (ex_cv True True 0 0) (ex2_file ''SER'') True 1000 ex2_frames
     (vf_frame_count (ex2_file ''SER''))"
  by code_simp

lemma ex2_plain_calls:
  "run_callbacks (None :: (unit, unit) callback option) (progress_calls (ex2_file ''SER'')) ()
     = Inr ()"
  by code_simp

lemma ex2_rejected:
  "List.map_filter (\<lambda>i. accepted_frame (ex_cv True True 0 0) (ex2_frames 0) 1000 (ex2_frames i))
     [1..<vf_frame_count (ex2_file ''SER'')] = []"
  by code_simp

lemma ex2_average_one:
  "returning (combine_aligned ''average'' True (ex2_frames 0) [ex2_frames 0]) ()
     = Inr (ex_img, ())"
  by code_simp

text \<open>
  Claim C10.  In aligned stacking of a file that is not AVI or MP4, when the frames are
  read and processed without an exception (in particular the quality score of frame 0
  is computed: the computation is outside any \<open>try\<close>, and when it raises so does the
  operation) and no progress call raises, the list of stacked frames is frame 0 followed
  by those of the frames 1 to \<open>frame_count - 1\<close> that pass alignment and the quality
  threshold.  Frame 0 is the reference, it is in the list whatever the threshold, the
  composite is the combination of that list, and the number of frames used is at least 1
  and at most the frame count.
\<close>

theorem aligned_stack_keeps_reference:
  fixes cb :: "('s, 'r) callback option"
  assumes nat: "file_type vf \<notin> {''AVI'', ''MP4''}"
    and pos: "0 < vf_frame_count vf"
    and fo: "frames_ok cv vf True thr F (vf_frame_count vf)"
    and ok: "run_callbacks cb (progress_calls vf) s = Inr s'"
  shows "aligned_frames_of cv vf cb (F 0) thr s =
           Inr (F 0 # List.map_filter (\<lambda>i. accepted_frame cv (F 0) thr (F i))
                        [1..<vf_frame_count vf], s') \<and>
         stack_frames cv vf meth cb stretch True thr s =
           returning (combine_aligned meth stretch (F 0)
                  (F 0 # List.map_filter (\<lambda>i. accepted_frame cv (F 0) thr (F i))
                           [1..<vf_frame_count vf])) s' \<and>
         1 \<le> length (F 0 # List.map_filter (\<lambda>i. accepted_frame cv (F 0) thr (F i))
                                [1..<vf_frame_count vf]) \<and>
         length (F 0 # List.map_filter (\<lambda>i. accepted_frame cv (F 0) thr (F i))
                         [1..<vf_frame_count vf]) \<le> vf_frame_count vf"
proof -
  have c: "length (List.map_filter (\<lambda>i. accepted_frame cv (F 0) thr (F i))
                         [1..<vf_frame_count vf]) \<le> vf_frame_count vf - 1"
    using length_map_filter_le[of "\<lambda>i. accepted_frame cv (F 0) thr (F i)"
        "[1..<vf_frame_count vf]"] by simp
  from aligned_frames_of_complete[OF nat pos fo ok]
    aligned_complete[OF nat pos fo ok, of meth stretch] c pos
  show ?thesis by simp
qed

theorem aligned_stack_keeps_reference_witness:
  "file_type (ex2_file ''SER'') \<notin> {''AVI'', ''MP4''} \<and>
   0 < vf_frame_count (ex2_file ''SER'') \<and>
   frames_ok (ex_cv True True 0 0) (ex2_file ''SER'') True 1000 ex2_frames
     (vf_frame_count (ex2_file ''SER'')) \<and>
   run_callbacks (None :: (unit, unit) callback option) (progress_calls (ex2_file ''SER'')) ()
     = Inr () \<and>
   aligned_frames_of (ex_cv True True 0 0) (ex2_file ''SER'')
      (None :: (unit, unit) callback option) (ex2_frames 0) 1000 () = Inr ([ex2_frames 0], ()) \<and>
   stack_frames (ex_cv True True 0 0) (ex2_file ''SER'') ''average''
      (None :: (unit, unit) callback option) True True 1000 () = Inr (ex_img, ())"
  using aligned_stack_keeps_reference[OF ex2_native ex2_positive ex2_ok_1000 ex2_plain_calls,
      where meth = "''average''" and stretch = True]
    ex2_native ex2_positive[of "''SER''"] ex2_ok_1000 ex2_plain_calls
  by (simp only: ex2_rejected ex2_average_one) simp

lemma aligned_reference_without_score:
  assumes "file_type vf \<notin> {''AVI'', ''MP4''}"
    and "vf_get_frame vf 0 = Inr first"
    and "calculate_quality_score cv first = None"
  shows "stack_frames cv vf meth cb stretch True thr s = Inl CvError"
  using assms by (simp add: stack_frames_def aligned_frames_of_def Let_def)

















lemma ex5_open: "VideoFile_ser ex5_bytes = Inr ex5_file"
  by (simp add: VideoFile_ser_def ex5_file_def ex5_bytes_def ex5_hdr_def parse_defs
        unpack_le_zeros)

text \<open>
  Claim C8, as amended.  For the container of 5 mono 8-bit 4\<times>4 frames of constant value
  10, 20, 30, 40, 50, stacking without alignment gives a uniform 30 for the average, a
  uniform 30 for the median, and a uniform 150 for the sum: the sum image is constant,
  so its percentile range is degenerate and the stretch leaves it as it is.
\<close>

theorem stack_five_constant_frames:
  "VideoFile_ser ex5_bytes = Inr ex5_file \<and>
   stack_frames cv ex5_file ''average'' (None :: (unit, unit) callback option) True False thr ()
     = Inr (\<lparr>dtype = UInt8, shape = [4, 4], data = replicate 16 30\<rparr>, ()) \<and>
   stack_frames cv ex5_file ''sum'' (None :: (unit, unit) callback option) True False thr ()
     = Inr (\<lparr>dtype = UInt8, shape = [4, 4], data = replicate 16 150\<rparr>, ()) \<and>
   stack_frames cv ex5_file ''median'' (None :: (unit, unit) callback option) True False thr ()
     = Inr (\<lparr>dtype = UInt8, shape = [4, 4], data = replicate 16 30\<rparr>, ())"
proof -
  have a: "stack_frames cv ex5_file ''average'' (None :: (unit, unit) callback option)
             True False thr ()
     = Inr (\<lparr>dtype = UInt8, shape = [4, 4], data = replicate 16 30\<rparr>, ())"
    by code_simp
  have b: "stack_frames cv ex5_file ''sum'' (None :: (unit, unit) callback option)
             True False thr ()
     = Inr (\<lparr>dtype = UInt8, shape = [4, 4], data = replicate 16 150\<rparr>, ())"
    by code_simp
  have c: "stack_frames cv ex5_file ''median'' (None :: (unit, unit) callback option)
             True False thr ()
     = Inr (\<lparr>dtype = UInt8, shape = [4, 4], data = replicate 16 30\<rparr>, ())"
    by code_simp
  from ex5_open a b c show ?thesis by simp
qed

text \<open>The claim as first stated fails for the sum: the result is not the image whose
  samples all have the maximal value 255.\<close>

theorem stack_sum_not_maximal_counterexample:
  "stack_frames (ex_cv True True 0 0) ex5_file ''sum'' (None :: (unit, unit) callback option)
      True False 0 ()
     \<noteq> Inr (\<lparr>dtype = UInt8, shape = [4, 4], data = replicate 16 255\<rparr>, ())"
  by code_simp

end
